(* ===== verification/Prelude.thy ===== *)
theory Prelude
  imports Main "HOL-Library.Sublist"
begin

text \<open>
  Shared vocabulary of the development: the named collections that the component
  theories fill, the type synonyms that name the model's states, and generic lemmas on
  lists, strings and first occurrences that several components use (the thumbnail key
  roundtrip, the long-poll characterisation, the submission prefix property).
\<close>

named_theorems model_defs "definitions of the Python/Flask layer unfolded by component proofs"
named_theorems py_simps "evaluation rules of the Python layer used by simp in component proofs"

type_synonym path = "string list"
  \<comment> \<open>a filesystem path as the list of its components\<close>

subsection \<open>Lists split at a separator\<close>

text \<open>
  A string built as \<open>xs @ c # ys\<close> with no \<open>c\<close> in \<open>xs\<close> determines both parts: the
  basis of every "format, then parse back" argument of the development.
\<close>

lemma append_sep_unique:
  assumes "c \<notin> set xs" and "c \<notin> set xs'" and "xs @ c # ys = xs' @ c # ys'"
  shows "xs = xs' \<and> ys = ys'"
  using assms
proof (induction xs arbitrary: xs')
  case Nil
  then show ?case by (cases xs') auto
next
  case (Cons x xs)
  then show ?case by (cases xs') auto
qed

lemma append_suffix_cancel [simp]: "xs @ zs = ys @ zs \<longleftrightarrow> xs = ys"
  by simp

text \<open>A key whose entries all carry the same value is looked up to that value.\<close>

lemma map_of_unique_key:
  assumes "(k, v) \<in> set xs" and "\<forall>v'. (k, v') \<in> set xs \<longrightarrow> v' = v"
  shows "map_of xs k = Some v"
  using assms
proof (induction xs)
  case (Cons kv xs)
  obtain a b where kv: "kv = (a, b)" by fastforce
  show ?case
  proof (cases "a = k")
    case True
    then have "b = v" using Cons.prems(2) kv by auto
    then show ?thesis using True kv by simp
  next
    case False
    then have "(k, v) \<in> set xs" using Cons.prems(1) kv by auto
    moreover have "\<forall>v'. (k, v') \<in> set xs \<longrightarrow> v' = v" using Cons.prems(2) by auto
    ultimately have "map_of xs k = Some v" using Cons.IH by blast
    then show ?thesis using False kv by simp
  qed
qed simp

subsection \<open>First occurrence of an event in an infinite sequence\<close>

text \<open>
  Loops that run until some event happens stop at the least index where it happens.
  The following picks that index.
\<close>

lemma first_occurrence:
  assumes "P (n :: nat)"
  obtains i where "P i" and "\<And>j. j < i \<Longrightarrow> \<not> P j" and "i \<le> n"
proof -
  from assms have "\<exists>i. P i \<and> (\<forall>j<i. \<not> P j)" using exists_least_iff by blast
  then obtain i where "P i" and lt: "\<forall>j<i. \<not> P j" by blast
  moreover have "i \<le> n" using lt assms by (meson not_le)
  ultimately show thesis using that by blast
qed

lemma first_occurrence_unique:
  assumes "P (i :: nat)" "\<forall>j<i. \<not> P j" "P i'" "\<forall>j<i'. \<not> P j"
  shows "i = i'"
  using assms by (meson linorder_neqE_nat)

subsection \<open>Prefixes of a protocol\<close>

lemma prefix_append_same: "prefix xs ys \<Longrightarrow> prefix (zs @ xs) (zs @ ys)"
  by simp

end
