(* ===== verification/Python.thy ===== *)
theory Python
  imports Prelude
begin

text \<open>
  The part of Python 2, Flask, pathlib and the requests library that the handlers of
  \<open>src/spreadsplug/web/web.py\<close> depend on, written as HOL values: JSON-like Python values,
  the exceptions the handlers can raise, the responses a Flask view can produce and the
  HTTP status Flask sends for each, the filesystem as a map from paths to contents,
  \<open>str()\<close> of a non-negative int, \<open>str.rfind\<close>, and the pathlib properties
  \<open>name\<close> and \<open>stem\<close>. The workflow record and the application configuration record name
  the attributes the handlers read.
\<close>

section \<open>Python values and exceptions\<close>

datatype pyval =
    PNone
  | PBool bool
  | PInt int
  | PStr string
  | PList "pyval list"
  | PDict "(string \<times> pyval) list"

text \<open>
  A well-formed JSON value: every dict has distinct keys, at every level. Values built
  from Python dicts and decoded JSON are well-formed.
\<close>

fun py_wf :: "pyval \<Rightarrow> bool" where
  "py_wf (PList vs) = (\<forall>v\<in>set vs. py_wf v)"
| "py_wf (PDict kvs) = (distinct (map fst kvs) \<and> (\<forall>kv\<in>set kvs. py_wf (snd kv)))"
| "py_wf _ = True"

datatype py_exc =
    KeyError | TypeError | IndexError | AttributeError | ZeroDivisionError
  | IOError | OSError | UnboundLocalError | ValueError | ConnectionError | WandError

text \<open>\<open>d[k]\<close> for a string key \<open>k\<close>: only a dict can be subscripted by a string.\<close>

fun py_getitem :: "pyval \<Rightarrow> string \<Rightarrow> py_exc + pyval" where
  "py_getitem (PDict kvs) k = (case map_of kvs k of None \<Rightarrow> Inl KeyError | Some v \<Rightarrow> Inr v)"
| "py_getitem _ k = Inl TypeError"

text \<open>Truth value of an optional string setting (\<open>None\<close> and \<open>''\<close> are false).\<close>

definition py_str_truthy :: "string option \<Rightarrow> bool" where
  "py_str_truthy s \<longleftrightarrow> (case s of None \<Rightarrow> False | Some x \<Rightarrow> x \<noteq> [])"

text \<open>\<open>a in b\<close> for two strings is the substring test.\<close>

definition py_str_in :: "string \<Rightarrow> string \<Rightarrow> bool" where
  "py_str_in a b \<longleftrightarrow> sublist a b"

text \<open>\<open>"/".join(parts)\<close>: every part must be a string, else TypeError.\<close>

fun py_join_strs :: "pyval list \<Rightarrow> py_exc + string list" where
  "py_join_strs [] = Inr []"
| "py_join_strs (PStr s # ps) = (case py_join_strs ps of Inl e \<Rightarrow> Inl e | Inr ss \<Rightarrow> Inr (s # ss))"
| "py_join_strs (_ # ps) = Inl TypeError"

fun str_join :: "string \<Rightarrow> string list \<Rightarrow> string" where
  "str_join sep [] = []"
| "str_join sep [s] = s"
| "str_join sep (s # ss) = s @ sep @ str_join sep ss"

definition py_slash_join :: "pyval list \<Rightarrow> py_exc + string" where
  "py_slash_join ps = (case py_join_strs ps of Inl e \<Rightarrow> Inl e | Inr ss \<Rightarrow> Inr (str_join ''/'' ss))"

section \<open>Decimal strings\<close>

text \<open>\<open>str(n)\<close> and \<open>"{0}".format(n)\<close> for a non-negative int.\<close>

definition digit_char :: "nat \<Rightarrow> char" where
  "digit_char d = char_of (48 + d)"

fun nat_str :: "nat \<Rightarrow> string" where
  "nat_str n = (if n < 10 then [digit_char n] else nat_str (n div 10) @ [digit_char (n mod 10)])"

declare nat_str.simps [simp del]

text \<open>Reading a decimal string back: the inverse used to show that formatted keys do not collide.\<close>

definition char_digit :: "char \<Rightarrow> nat option" where
  "char_digit c = (let k = of_char c in if 48 \<le> k \<and> k < 58 then Some (k - 48) else None)"

fun digits_val :: "nat \<Rightarrow> string \<Rightarrow> nat option" where
  "digits_val acc [] = Some acc"
| "digits_val acc (c # cs) = (case char_digit c of None \<Rightarrow> None | Some d \<Rightarrow> digits_val (10 * acc + d) cs)"

definition parse_nat :: "string \<Rightarrow> nat option" where
  "parse_nat s = (if s = [] then None else digits_val 0 s)"

section \<open>Strings and paths\<close>

text \<open>\<open>s.rfind(c)\<close>: the index of the last occurrence, \<open>None\<close> for Python's -1.\<close>

fun rfind_from :: "char \<Rightarrow> string \<Rightarrow> nat \<Rightarrow> nat option \<Rightarrow> nat option" where
  "rfind_from c [] i found = found"
| "rfind_from c (x # xs) i found = rfind_from c xs (Suc i) (if x = c then Some i else found)"

definition rfind :: "char \<Rightarrow> string \<Rightarrow> nat option" where
  "rfind c s = rfind_from c s 0 None"

text \<open>pathlib: \<open>p.name\<close> is the last component, \<open>p.stem\<close> the name without its suffix.\<close>

definition path_name :: "path \<Rightarrow> string" where
  "path_name p = (if p = [] then [] else last p)"

definition name_stem :: "string \<Rightarrow> string" where
  "name_stem nm =
     (case rfind CHR ''.'' nm of
        None \<Rightarrow> nm
      | Some i \<Rightarrow> if 0 < i \<and> i < length nm - 1 then take i nm else nm)"

definition path_stem :: "path \<Rightarrow> string" where
  "path_stem p = name_stem (path_name p)"

section \<open>Files, responses and Flask dispatch\<close>

datatype blob =
    Bytes string
  | Picture nat nat string   \<comment> \<open>an image file: width, height, pixel data\<close>
  | Sampled blob nat nat     \<comment> \<open>\<open>img.sample(w, h)\<close> of an image, saved as JPEG\<close>
  | Archive "(string \<times> blob option) list"
      \<comment> \<open>a ZIP file: its entries in write order, a directory entry without content\<close>

type_synonym fs = "path \<Rightarrow> blob option"

text \<open>\<open>Image(filename=...)\<close> of wand: the width and height, or a wand error.\<close>

fun image_size :: "blob \<Rightarrow> py_exc + nat \<times> nat" where
  "image_size (Picture w h _) = Inr (w, h)"
| "image_size (Sampled _ w h) = Inr (w, h)"
| "image_size (Bytes _) = Inl WandError"
| "image_size (Archive _) = Inl WandError"

section \<open>Application state\<close>

text \<open>The keys of \<open>app.config\<close> the handlers read.\<close>

record app_config =
  cfg_mode :: string
  cfg_debug :: bool
  cfg_postproc_server :: "string option"
  cfg_temp_dir :: path
  cfg_base_path :: path

text \<open>The disk: file contents and the set of existing directories.\<close>

record disk =
  disk_files :: fs
  disk_dirs :: "path set"

text \<open>The attributes of a \<open>spreads.workflow.Workflow\<close> the handlers read.\<close>

record workflow =
  wf_id :: nat
  wf_path :: path
  wf_images :: "path list"
  wf_step :: pyval
  wf_step_done :: pyval
  wf_config :: "pyval list"  \<comment> \<open>the confit configuration: its sources, highest priority first\<close>

text \<open>What a view function produces: a body, \<open>abort(code)\<close>, no return value, or an exception.\<close>

datatype response =
    RJson pyval
  | RWorkflow workflow       \<comment> \<open>\<open>jsonify(workflow_to_dict(w))\<close>\<close>
  | RDumped pyval            \<comment> \<open>the string \<open>json.dumps(v)\<close> returned as the body\<close>
  | RText string
  | RFile path blob
  | RAttachment path blob string  \<comment> \<open>\<open>send_file(p, attachment_filename=n, as_attachment=True)\<close>\<close>
  | RTemplate string "(string \<times> pyval) list"  \<comment> \<open>\<open>render_template(name, **context)\<close>\<close>
  | RWorkflowList "workflow list"
      \<comment> \<open>\<open>json.dumps([workflow_to_dict(w), ...])\<close> with a JSON content type\<close>
  | RAbort nat
  | RNoReturn
  | RRaise py_exc

fun flask_status :: "response \<Rightarrow> nat" where
  "flask_status (RJson _) = 200"
| "flask_status (RWorkflow _) = 200"
| "flask_status (RDumped _) = 200"
| "flask_status (RText _) = 200"
| "flask_status (RFile _ _) = 200"
| "flask_status (RAttachment _ _ _) = 200"
| "flask_status (RTemplate _ _) = 200"
| "flask_status (RWorkflowList _) = 200"
| "flask_status (RAbort c) = c"
| "flask_status RNoReturn = 500"
| "flask_status (RRaise _) = 500"

text \<open>\<open>send_file(path)\<close>: the file's content, or IOError when it is absent.\<close>

definition send_file :: "fs \<Rightarrow> path \<Rightarrow> response" where
  "send_file fs p = (case fs p of None \<Rightarrow> RRaise IOError | Some b \<Rightarrow> RFile p b)"

text \<open>
  Flask calls a view as \<open>view(**view_args)\<close>: the URL rule's variables become keyword
  arguments, and Python binds them to the view's parameters by name. An unexpected or a
  missing keyword is a TypeError.
\<close>

definition bind_view_args :: "string list \<Rightarrow> (string \<times> 'v) list \<Rightarrow> 'v list option" where
  "bind_view_args params kw =
     (if set (map fst kw) \<subseteq> set params then those (map (map_of kw) params) else None)"

declare py_str_truthy_def [model_defs] py_str_in_def [model_defs] send_file_def [model_defs]
  path_stem_def [model_defs] path_name_def [model_defs] name_stem_def [model_defs]
  py_slash_join_def [model_defs] rfind_def [model_defs]

section \<open>Lemmas on decimal strings\<close>

lemma char_digit_digit_char [py_simps]: "d < 10 \<Longrightarrow> char_digit (digit_char d) = Some d"
  by (simp add: char_digit_def digit_char_def)

lemma digits_val_snoc:
  "digits_val acc (xs @ [c]) =
     (case digits_val acc xs of
        None \<Rightarrow> None
      | Some v \<Rightarrow> (case char_digit c of None \<Rightarrow> None | Some d \<Rightarrow> Some (10 * v + d)))"
  by (induction xs arbitrary: acc) (auto split: option.splits)

lemma digits_val_nat_str: "digits_val 0 (nat_str n) = Some n"
proof (induction n rule: nat_str.induct)
  case (1 n)
  show ?case
  proof (cases "n < 10")
    case True
    then show ?thesis by (simp add: nat_str.simps [of n] char_digit_digit_char)
  next
    case False
    then have "digits_val 0 (nat_str (n div 10)) = Some (n div 10)" using "1.IH" by simp
    with False show ?thesis
      by (simp add: nat_str.simps [of n] digits_val_snoc char_digit_digit_char)
  qed
qed

lemma nat_str_nonempty [py_simps]: "nat_str n \<noteq> []"
  by (subst nat_str.simps) simp

text \<open>The decimal string of a number reads back as that number.\<close>

lemma parse_nat_str [py_simps]: "parse_nat (nat_str n) = Some n"
  by (simp add: parse_nat_def nat_str_nonempty digits_val_nat_str)

lemma nat_str_inj [py_simps]: "nat_str m = nat_str n \<longleftrightarrow> m = n"
  by (metis option.inject parse_nat_str)

lemma nat_str_digits: "c \<in> set (nat_str n) \<Longrightarrow> char_digit c \<noteq> None"
proof (induction n rule: nat_str.induct)
  case (1 n)
  then show ?case
    by (cases "n < 10") (auto simp: nat_str.simps [of n] char_digit_digit_char)
qed

lemma underscore_not_in_nat_str [py_simps]: "CHR ''_'' \<notin> set (nat_str n)"
  using nat_str_digits [of "CHR ''_''" n] by (auto simp: char_digit_def)

section \<open>Lemmas on rfind and stems\<close>

lemma rfind_from_notin: "c \<notin> set xs \<Longrightarrow> rfind_from c xs i found = found"
  by (induction xs arbitrary: i found) auto

lemma rfind_from_append_sep:
  "c \<notin> set b \<Longrightarrow> rfind_from c (a @ c # b) i found = Some (i + length a)"
  by (induction a arbitrary: i found) (auto simp: rfind_from_notin)

text \<open>The stem of a name with an inner dot is the part before the last dot.\<close>

lemma name_stem_inner_dot:
  assumes "CHR ''.'' \<notin> set b" and "a \<noteq> []" and "b \<noteq> []"
  shows "name_stem (a @ CHR ''.'' # b) = a"
  using assms by (simp add: name_stem_def rfind_def rfind_from_append_sep)

section \<open>Lemmas on joined strings\<close>

lemma str_join_Cons_nonempty: "ss \<noteq> [] \<Longrightarrow> str_join sep (s # ss) = s @ sep @ str_join sep ss"
  by (cases ss) simp_all

lemma str_join_in_set: "x \<in> set xs \<Longrightarrow> set x \<subseteq> set (str_join sep xs)"
  by (induction sep xs rule: str_join.induct) auto

lemma str_join_inj:
  assumes "\<forall>x\<in>set xs. c \<notin> set x" and "\<forall>y\<in>set ys. c \<notin> set y" and "xs \<noteq> []" and "ys \<noteq> []"
    and "str_join [c] xs = str_join [c] ys"
  shows "xs = ys"
  using assms
proof (induction xs arbitrary: ys)
  case (Cons x xs)
  obtain y ys' where ys: "ys = y # ys'" using Cons.prems(4) by (cases ys) auto
  have cx: "c \<notin> set x" and cy: "c \<notin> set y" using Cons.prems(1,2) ys by auto
  consider "xs = []" "ys' = []" | "xs = []" "ys' \<noteq> []" | "xs \<noteq> []" "ys' = []" | "xs \<noteq> []" "ys' \<noteq> []"
    by blast
  then show ?case
  proof cases
    case 1
    then show ?thesis using Cons.prems(5) ys by simp
  next
    case 2
    then have "x = y @ c # str_join [c] ys'" using Cons.prems(5) ys by (simp add: str_join_Cons_nonempty)
    then show ?thesis using cx by simp
  next
    case 3
    then have "x @ c # str_join [c] xs = y" using Cons.prems(5) ys by (simp add: str_join_Cons_nonempty)
    then show ?thesis using cy by auto
  next
    case 4
    then have "x @ c # str_join [c] xs = y @ c # str_join [c] ys'"
      using Cons.prems(5) ys by (simp add: str_join_Cons_nonempty)
    from append_sep_unique [OF cx cy this] have "x = y" and j: "str_join [c] xs = str_join [c] ys'" by simp_all
    have "xs = ys'" using Cons.IH [OF _ _ 4(1) 4(2) j] Cons.prems(1,2) ys by simp
    then show ?thesis using \<open>x = y\<close> ys by simp
  qed
qed simp

lemma str_join_last:
  assumes "xs \<noteq> []" and "\<forall>x\<in>set xs. x \<noteq> [] \<and> c \<notin> set x"
  shows "str_join [c] xs \<noteq> [] \<and> last (str_join [c] xs) \<noteq> c"
  using assms
proof (induction xs)
  case (Cons x xs)
  show ?case
  proof (cases "xs = []")
    case True
    then show ?thesis using Cons.prems last_in_set [of x] by auto
  next
    case False
    then show ?thesis using Cons by (simp add: str_join_Cons_nonempty)
  qed
qed simp

end
