(* ===== verification/Poller.thy ===== *)
theory Poller
  imports Python
begin

text \<open>
  The long-poll endpoint \<open>poll_for_updates\<close> (\<open>web.py\<close>, lines 163--192) and the state
  tracker it uses: the snapshot of a workflow's image count, step and step-done flag.

  The workflow is mutated by other requests while the loop runs, so the model does not
  see one workflow but a sequence of observations: \<open>obs k\<close> is the workflow as the
  \<open>k\<close>-th read of the loop finds it. Read 0 is the baseline taken before the loop.
  Iteration \<open>i\<close> reads at \<open>2 i + 1\<close> to compare and, when nothing changed, at \<open>2 i + 2\<close>
  to refresh its baseline; when something changed, the read at \<open>2 i + 2\<close> is the one
  the response is built from. Every interleaving of writers with the loop is such a
  sequence. \<open>clk i\<close> is \<open>time.time() - start_time\<close> in milliseconds when iteration
  \<open>i\<close> evaluates \<open>can_continue()\<close>.
\<close>

type_synonym snapshot = "nat \<times> pyval \<times> pyval"

definition take_snapshot :: "workflow \<Rightarrow> snapshot" where
  "take_snapshot w = (length (wf_images w), wf_step w, wf_step_done w)"

definition poll_ceiling_ms :: nat where
  "poll_ceiling_ms = 110000"

definition can_continue :: "bool \<Rightarrow> (nat \<Rightarrow> nat) \<Rightarrow> nat \<Rightarrow> bool" where
  "can_continue debug clk i \<longleftrightarrow> (\<not> debug \<or> clk i < poll_ceiling_ms)"

datatype poll_result = PollChanged workflow | PollTimeout

partial_function (option) poll_loop ::
  "bool \<Rightarrow> (nat \<Rightarrow> nat) \<Rightarrow> (nat \<Rightarrow> workflow) \<Rightarrow> nat \<Rightarrow> snapshot \<Rightarrow> poll_result option"
where
  "poll_loop debug clk obs i old =
     (if \<not> can_continue debug clk i then Some PollTimeout
      else if take_snapshot (obs (2 * i + 1)) \<noteq> old then Some (PollChanged (obs (2 * i + 2)))
      else poll_loop debug clk obs (Suc i) (take_snapshot (obs (2 * i + 2))))"

definition poll_for_updates ::
  "app_config \<Rightarrow> (nat \<Rightarrow> nat) \<Rightarrow> (nat \<Rightarrow> workflow) \<Rightarrow> poll_result option"
where
  "poll_for_updates cfg clk obs = poll_loop (cfg_debug cfg) clk obs 0 (take_snapshot (obs 0))"

fun poll_status :: "poll_result \<Rightarrow> nat" where
  "poll_status (PollChanged _) = 200"
| "poll_status PollTimeout = 408"

text \<open>
  The specification of the loop, one iteration at a time: iteration \<open>i\<close> sees a change
  when its comparison read differs from the read before it, and the loop stops at the
  first iteration that may not continue or sees a change.
\<close>

definition changed_at :: "(nat \<Rightarrow> workflow) \<Rightarrow> nat \<Rightarrow> bool" where
  "changed_at obs i \<longleftrightarrow> take_snapshot (obs (2 * i + 1)) \<noteq> take_snapshot (obs (2 * i))"

definition stops_at :: "bool \<Rightarrow> (nat \<Rightarrow> nat) \<Rightarrow> (nat \<Rightarrow> workflow) \<Rightarrow> nat \<Rightarrow> bool" where
  "stops_at debug clk obs i \<longleftrightarrow> \<not> can_continue debug clk i \<or> changed_at obs i"

definition answer_at :: "bool \<Rightarrow> (nat \<Rightarrow> nat) \<Rightarrow> (nat \<Rightarrow> workflow) \<Rightarrow> nat \<Rightarrow> poll_result" where
  "answer_at debug clk obs i =
     (if can_continue debug clk i then PollChanged (obs (2 * i + 2)) else PollTimeout)"

text \<open>Two workflows for the concrete runs below: before and after one capture.\<close>

abbreviation demo_wf0 :: workflow where
  "demo_wf0 \<equiv> \<lparr>wf_id = 1, wf_path = [''books'', ''demo''], wf_images = [],
    wf_step = PStr ''capture'', wf_step_done = PBool False, wf_config = []\<rparr>"

abbreviation demo_wf1 :: workflow where
  "demo_wf1 \<equiv> demo_wf0\<lparr>wf_images := [[''books'', ''demo'', ''raw'', ''000.jpg'']]\<rparr>"

abbreviation demo_cfg :: "bool \<Rightarrow> app_config" where
  "demo_cfg d \<equiv> \<lparr>cfg_mode = ''scanner'', cfg_debug = d, cfg_postproc_server = Some ''http://proc'',
    cfg_temp_dir = [''tmp''], cfg_base_path = [''books'']\<rparr>"

subsection \<open>The loop, unrolled\<close>

lemma poll_loop_step:
  assumes "\<not> stops_at debug clk obs i"
  shows "poll_loop debug clk obs i (take_snapshot (obs (2 * i)))
       = poll_loop debug clk obs (Suc i) (take_snapshot (obs (2 * Suc i)))"
  using assms by (simp add: poll_loop.simps [of debug clk obs i] stops_at_def changed_at_def)

lemma poll_loop_stop:
  assumes "stops_at debug clk obs i"
  shows "poll_loop debug clk obs i (take_snapshot (obs (2 * i))) = Some (answer_at debug clk obs i)"
  using assms
  by (auto simp: poll_loop.simps [of debug clk obs i] stops_at_def changed_at_def answer_at_def)

lemma poll_loop_unroll:
  assumes "\<forall>j<n. \<not> stops_at debug clk obs (i + j)"
  shows "poll_loop debug clk obs i (take_snapshot (obs (2 * i)))
       = poll_loop debug clk obs (i + n) (take_snapshot (obs (2 * (i + n))))"
  using assms
proof (induction n arbitrary: i)
  case 0
  then show ?case by simp
next
  case (Suc n)
  have "\<not> stops_at debug clk obs i" using Suc.prems by (metis add_0_right zero_less_Suc)
  then have "poll_loop debug clk obs i (take_snapshot (obs (2 * i)))
      = poll_loop debug clk obs (Suc i) (take_snapshot (obs (2 * Suc i)))"
    by (rule poll_loop_step)
  also have "\<dots> = poll_loop debug clk obs (Suc i + n) (take_snapshot (obs (2 * (Suc i + n))))"
    using Suc.prems by (intro Suc.IH) (metis add_Suc Suc_mono add_Suc_shift)
  finally show ?case by simp
qed

text \<open>If the loop returns, it returned at the first iteration that stops.\<close>

lemma poll_loop_returns_first_stop:
  assumes ret: "poll_loop debug clk obs i old = Some r"
  shows "old = take_snapshot (obs (2 * i)) \<longrightarrow>
    (\<exists>k\<ge>i. stops_at debug clk obs k \<and> (\<forall>j. i \<le> j \<and> j < k \<longrightarrow> \<not> stops_at debug clk obs j)
           \<and> r = answer_at debug clk obs k)"
proof (rule poll_loop.raw_induct [where P = "\<lambda>debug clk obs i old r.
    old = take_snapshot (obs (2 * i)) \<longrightarrow>
    (\<exists>k\<ge>i. stops_at debug clk obs k \<and> (\<forall>j. i \<le> j \<and> j < k \<longrightarrow> \<not> stops_at debug clk obs j)
           \<and> r = answer_at debug clk obs k)", OF _ ret])
  fix f :: "bool \<Rightarrow> (nat \<Rightarrow> nat) \<Rightarrow> (nat \<Rightarrow> workflow) \<Rightarrow> nat \<Rightarrow> snapshot \<Rightarrow> poll_result option"
  fix debug clk obs i old r
  assume IH: "\<And>debug clk obs i old r. f debug clk obs i old = Some r \<Longrightarrow>
    old = take_snapshot (obs (2 * i)) \<longrightarrow>
    (\<exists>k\<ge>i. stops_at debug clk obs k \<and> (\<forall>j. i \<le> j \<and> j < k \<longrightarrow> \<not> stops_at debug clk obs j)
           \<and> r = answer_at debug clk obs k)"
    and eq: "(if \<not> can_continue debug clk i then Some PollTimeout
      else if take_snapshot (obs (2 * i + 1)) \<noteq> old then Some (PollChanged (obs (2 * i + 2)))
      else f debug clk obs (Suc i) (take_snapshot (obs (2 * i + 2)))) = Some r"
  show "old = take_snapshot (obs (2 * i)) \<longrightarrow>
    (\<exists>k\<ge>i. stops_at debug clk obs k \<and> (\<forall>j. i \<le> j \<and> j < k \<longrightarrow> \<not> stops_at debug clk obs j)
           \<and> r = answer_at debug clk obs k)"
  proof
    assume old: "old = take_snapshot (obs (2 * i))"
    show "\<exists>k\<ge>i. stops_at debug clk obs k \<and> (\<forall>j. i \<le> j \<and> j < k \<longrightarrow> \<not> stops_at debug clk obs j)
           \<and> r = answer_at debug clk obs k"
    proof (cases "stops_at debug clk obs i")
      case True
      with eq old show ?thesis
        by (rule_tac x = i in exI)
           (auto simp: stops_at_def changed_at_def answer_at_def split: if_splits)
    next
      case False
      with eq old have "f debug clk obs (Suc i) (take_snapshot (obs (2 * Suc i))) = Some r"
        by (simp add: stops_at_def changed_at_def)
      with IH obtain k where k: "k \<ge> Suc i" "stops_at debug clk obs k"
        "r = answer_at debug clk obs k"
        and before: "\<forall>j. Suc i \<le> j \<and> j < k \<longrightarrow> \<not> stops_at debug clk obs j"
        by blast
      have "\<forall>j. i \<le> j \<and> j < k \<longrightarrow> \<not> stops_at debug clk obs j"
      proof (intro allI impI)
        fix j assume "i \<le> j \<and> j < k"
        with False before show "\<not> stops_at debug clk obs j" by (cases "j = i") auto
      qed
      with k show ?thesis by (intro exI [of _ k]) simp
    qed
  qed
qed

subsection \<open>The endpoint, both directions\<close>

lemma poll_for_updates_first_stop:
  assumes "stops_at (cfg_debug cfg) clk obs i" and "\<forall>j<i. \<not> stops_at (cfg_debug cfg) clk obs j"
  shows "poll_for_updates cfg clk obs = Some (answer_at (cfg_debug cfg) clk obs i)"
proof -
  have "poll_for_updates cfg clk obs = poll_loop (cfg_debug cfg) clk obs i (take_snapshot (obs (2 * i)))"
    using poll_loop_unroll [of i "cfg_debug cfg" clk obs 0] assms(2) by (simp add: poll_for_updates_def)
  also have "\<dots> = Some (answer_at (cfg_debug cfg) clk obs i)" using poll_loop_stop [OF assms(1)] .
  finally show ?thesis .
qed

lemma poll_for_updates_SomeD:
  assumes "poll_for_updates cfg clk obs = Some r"
  obtains i where "stops_at (cfg_debug cfg) clk obs i" and "\<forall>j<i. \<not> stops_at (cfg_debug cfg) clk obs j"
    and "r = answer_at (cfg_debug cfg) clk obs i"
proof -
  from assms have "poll_loop (cfg_debug cfg) clk obs 0 (take_snapshot (obs (2 * 0))) = Some r"
    by (simp add: poll_for_updates_def)
  from poll_loop_returns_first_stop [OF this] show thesis using that by auto
qed

lemma poll_for_updates_returns:
  assumes "stops_at (cfg_debug cfg) clk obs n"
  shows "\<exists>i\<le>n. poll_for_updates cfg clk obs = Some (answer_at (cfg_debug cfg) clk obs i)"
proof -
  from assms obtain i where "stops_at (cfg_debug cfg) clk obs i"
    and "\<And>j. j < i \<Longrightarrow> \<not> stops_at (cfg_debug cfg) clk obs j" and "i \<le> n"
    using first_occurrence by blast
  then show ?thesis using poll_for_updates_first_stop by blast
qed

lemma poll_for_updates_None:
  assumes "\<forall>i. \<not> stops_at (cfg_debug cfg) clk obs i"
  shows "poll_for_updates cfg clk obs = None"
proof (cases "poll_for_updates cfg clk obs")
  case (Some r)
  then obtain i where "stops_at (cfg_debug cfg) clk obs i" by (rule poll_for_updates_SomeD)
  with assms show ?thesis by blast
qed

lemma clock_lower_bound:
  assumes "\<forall>i. clk i + 100 \<le> clk (Suc i)"
  shows "100 * n \<le> clk n"
proof (induction n)
  case 0
  then show ?case by simp
next
  case (Suc n)
  with assms show ?case by (metis add_le_mono1 mult_Suc_right order_trans add.commute)
qed

lemma stops_at_ceiling:
  assumes "\<forall>i. clk i + 100 \<le> clk (Suc i)"
  shows "stops_at True clk obs 1100"
  using clock_lower_bound [OF assms, of 1100]
  by (simp add: stops_at_def can_continue_def poll_ceiling_ms_def)

lemmas poll_eval = stops_at_def can_continue_def changed_at_def answer_at_def
  take_snapshot_def poll_ceiling_ms_def

subsection \<open>What the endpoint returns\<close>

text \<open>
  C1. The long poll returns exactly at the first iteration that either may not continue
  (the 110-second ceiling in debug mode) or whose comparison read differs from the read
  before it; it answers with the changed workflow or with the timeout accordingly, and it
  returns nothing (blocks forever) when no iteration stops.
\<close>

theorem poll_for_updates_Some_iff:
  "poll_for_updates cfg clk obs = Some r \<longleftrightarrow>
     (\<exists>i. stops_at (cfg_debug cfg) clk obs i \<and> (\<forall>j<i. \<not> stops_at (cfg_debug cfg) clk obs j)
          \<and> r = answer_at (cfg_debug cfg) clk obs i)"
  by (metis poll_for_updates_SomeD poll_for_updates_first_stop)

text \<open>
  C2. No false wakeup: when the poll reports a change, some iteration's comparison read
  really differed from the read before it (the first such iteration), and the reported
  workflow is the one read right after it.
\<close>

theorem poll_changed_only_on_change:
  assumes "poll_for_updates cfg clk obs = Some (PollChanged w)"
  shows "\<exists>i. changed_at obs i \<and> (\<forall>j<i. \<not> changed_at obs j) \<and> w = obs (2 * i + 2)"
proof -
  from assms obtain i where stop: "stops_at (cfg_debug cfg) clk obs i"
    and before: "\<forall>j<i. \<not> stops_at (cfg_debug cfg) clk obs j"
    and r: "PollChanged w = answer_at (cfg_debug cfg) clk obs i"
    by (rule poll_for_updates_SomeD)
  from r have "can_continue (cfg_debug cfg) clk i" and "w = obs (2 * i + 2)"
    by (auto simp: answer_at_def split: if_splits)
  with stop before show ?thesis by (auto simp: stops_at_def)
qed

text \<open>
  C3. In debug mode the poll always returns, after at most 1100 iterations: each
  iteration sleeps 100 ms, so the clock passes the 110-second ceiling by then.
\<close>

theorem poll_debug_terminates:
  assumes "cfg_debug cfg" and "\<forall>i. clk i + 100 \<le> clk (Suc i)"
  shows "\<exists>i\<le>1100. poll_for_updates cfg clk obs = Some (answer_at True clk obs i)"
  using poll_for_updates_returns [of cfg clk obs 1100] stops_at_ceiling [OF assms(2)] assms(1)
  by simp

text \<open>
  C4. A timeout is only ever reported in debug mode, and only once the clock has reached
  the 110-second ceiling with no change seen by any earlier iteration.
\<close>

theorem poll_timeout_after_ceiling:
  assumes "poll_for_updates cfg clk obs = Some PollTimeout"
  shows "cfg_debug cfg \<and>
    (\<exists>i. poll_ceiling_ms \<le> clk i \<and> (\<forall>j<i. clk j < poll_ceiling_ms \<and> \<not> changed_at obs j))"
proof -
  from assms obtain i where "stops_at (cfg_debug cfg) clk obs i"
    and before: "\<forall>j<i. \<not> stops_at (cfg_debug cfg) clk obs j"
    and r: "PollTimeout = answer_at (cfg_debug cfg) clk obs i"
    by (rule poll_for_updates_SomeD)
  from r have "\<not> can_continue (cfg_debug cfg) clk i" by (auto simp: answer_at_def split: if_splits)
  then have "cfg_debug cfg" and "poll_ceiling_ms \<le> clk i" by (auto simp: can_continue_def)
  with before show ?thesis by (auto simp: stops_at_def can_continue_def)
qed

text \<open>
  C5. A change seen by a comparison read is reported by that same iteration: if every
  read up to the refresh of iteration \<open>i\<close> shows the baseline and the comparison read
  of iteration \<open>i\<close> shows another state, and the loop may still run, the poll answers
  with the workflow read right after.
\<close>

theorem poll_detects_change_at_check:
  assumes same: "\<forall>k\<le>2 * i. take_snapshot (obs k) = s"
    and diff: "take_snapshot (obs (2 * i + 1)) \<noteq> s"
    and cont: "\<forall>j\<le>i. can_continue (cfg_debug cfg) clk j"
  shows "poll_for_updates cfg clk obs = Some (PollChanged (obs (2 * i + 2)))"
proof -
  have "stops_at (cfg_debug cfg) clk obs i" using same diff by (simp add: stops_at_def changed_at_def)
  moreover have "\<forall>j<i. \<not> stops_at (cfg_debug cfg) clk obs j"
    using same cont by (simp add: stops_at_def changed_at_def)
  moreover have "answer_at (cfg_debug cfg) clk obs i = PollChanged (obs (2 * i + 2))"
    using cont by (simp add: answer_at_def)
  ultimately show ?thesis using poll_for_updates_first_stop by metis
qed

text \<open>
  C6. Lost update: outside debug mode, a change that lands between an iteration's
  comparison read and its baseline refresh is absorbed into the baseline and never
  reported: the poll blocks forever although the workflow now differs from the state at
  the start of the request.
\<close>

theorem poll_lost_update:
  assumes "\<not> cfg_debug cfg" and "s0 \<noteq> s1"
    and before: "\<forall>k<2 * m + 2. take_snapshot (obs k) = s0"
    and after: "\<forall>k\<ge>2 * m + 2. take_snapshot (obs k) = s1"
  shows "poll_for_updates cfg clk obs = None"
proof (rule poll_for_updates_None, intro allI)
  fix i
  have "take_snapshot (obs (2 * i + 1)) = take_snapshot (obs (2 * i))"
  proof (cases "i \<le> m")
    case True
    then show ?thesis using before by simp
  next
    case False
    then show ?thesis using after by simp
  qed
  with assms(1) show "\<not> stops_at (cfg_debug cfg) clk obs i"
    by (simp add: stops_at_def changed_at_def can_continue_def)
qed

text \<open>
  C7. Outside debug mode there is no ceiling at all: a workflow that never changes keeps
  the request blocked forever instead of timing out.
\<close>

theorem poll_blocks_without_debug:
  assumes "\<not> cfg_debug cfg" and "\<forall>k. take_snapshot (obs k) = s"
  shows "poll_for_updates cfg clk obs = None"
  using assms by (intro poll_for_updates_None) (simp add: stops_at_def changed_at_def can_continue_def)

subsection \<open>Concrete runs\<close>

theorem poll_for_updates_Some_iff_witness:
  "poll_for_updates (demo_cfg False) (\<lambda>i. 0) (\<lambda>k. if k = 0 then demo_wf0 else demo_wf1)
     = Some (PollChanged demo_wf1)"
  using poll_for_updates_Some_iff [of "demo_cfg False" "\<lambda>i. 0"
      "\<lambda>k. if k = 0 then demo_wf0 else demo_wf1" "PollChanged demo_wf1"]
  by (auto simp: poll_eval intro: exI [of _ 0])

theorem poll_changed_only_on_change_witness:
  "poll_for_updates (demo_cfg False) (\<lambda>i. 0) (\<lambda>k. if k = 0 then demo_wf0 else demo_wf1)
     = Some (PollChanged demo_wf1)
   \<and> changed_at (\<lambda>k. if k = 0 then demo_wf0 else demo_wf1) 0"
proof -
  let ?obs = "\<lambda>k. if k = 0 then demo_wf0 else demo_wf1"
  have ret: "poll_for_updates (demo_cfg False) (\<lambda>i. 0) ?obs = Some (PollChanged demo_wf1)"
    using poll_for_updates_first_stop [of "demo_cfg False" "\<lambda>i. 0" ?obs 0] by (simp add: poll_eval)
  from poll_changed_only_on_change [OF ret] obtain i where "changed_at ?obs i"
    and "\<forall>j<i. \<not> changed_at ?obs j" by blast
  then have "i = 0" by (cases i) (auto simp: changed_at_def take_snapshot_def)
  with ret \<open>changed_at ?obs i\<close> show ?thesis by simp
qed

theorem poll_debug_terminates_witness:
  "\<exists>i\<le>1100. poll_for_updates (demo_cfg True) (\<lambda>i. 100 * i) (\<lambda>k. demo_wf0)
     = Some (answer_at True (\<lambda>i. 100 * i) (\<lambda>k. demo_wf0) i)"
  using poll_debug_terminates [of "demo_cfg True" "\<lambda>i. 100 * i" "\<lambda>k. demo_wf0"] by simp

theorem poll_timeout_after_ceiling_witness:
  "poll_for_updates (demo_cfg True) (\<lambda>i. 100 * i) (\<lambda>k. demo_wf0) = Some PollTimeout
   \<and> poll_ceiling_ms \<le> 100 * 1100"
proof -
  have ret: "poll_for_updates (demo_cfg True) (\<lambda>i. 100 * i) (\<lambda>k. demo_wf0) = Some PollTimeout"
    using poll_for_updates_first_stop [of "demo_cfg True" "\<lambda>i. 100 * i" "\<lambda>k. demo_wf0" 1100]
    by (simp add: poll_eval)
  from poll_timeout_after_ceiling [OF ret] obtain i where "poll_ceiling_ms \<le> 100 * i"
    and "\<forall>j<i. 100 * j < poll_ceiling_ms" by auto
  then have "1100 \<le> i" and "\<forall>j<i. j < 1100" by (simp_all add: poll_ceiling_ms_def)
  then have "i = 1100" by (metis le_neq_implies_less less_irrefl)
  with ret \<open>poll_ceiling_ms \<le> 100 * i\<close> show ?thesis by simp
qed

theorem poll_detects_change_at_check_witness:
  "poll_for_updates (demo_cfg False) (\<lambda>i. 0) (\<lambda>k. if k = 0 then demo_wf0 else demo_wf1)
     = Some (PollChanged demo_wf1)"
  using poll_detects_change_at_check [of 0 "\<lambda>k. if k = 0 then demo_wf0 else demo_wf1"
      "take_snapshot demo_wf0" "demo_cfg False" "\<lambda>i. 0"]
  by (simp add: poll_eval)

theorem poll_lost_update_witness:
  "poll_for_updates (demo_cfg False) (\<lambda>i. 0) (\<lambda>k. if k < 2 then demo_wf0 else demo_wf1) = None"
  using poll_lost_update [of "demo_cfg False" "take_snapshot demo_wf0" "take_snapshot demo_wf1" 0
      "\<lambda>k. if k < 2 then demo_wf0 else demo_wf1" "\<lambda>i. 0"]
  by (simp add: take_snapshot_def)

theorem poll_blocks_without_debug_witness:
  "poll_for_updates (demo_cfg False) (\<lambda>i. 100 * i) (\<lambda>k. demo_wf0) = None"
  using poll_blocks_without_debug [of "demo_cfg False" "\<lambda>k. demo_wf0" "take_snapshot demo_wf0"]
  by simp

end
