(* ===== verification/Queue.thy ===== *)
theory Queue
  imports Python "HOL-Library.Multiset"
begin

text \<open>
  The processing queue: the handlers \<open>add_to_queue\<close>, \<open>list_jobs\<close> and
  \<open>remove_from_queue\<close> (\<open>web.py\<close>, lines 270--292) over the queue the persistence
  collaborator keeps. The persistence module is not part of the sources; its three queue
  operations are modelled from the spec (section 4.3 and 6): append returns the
  0-based position, i.e.\ the length before the append, and removal at a position out of
  range fails. Concurrent requests are modelled by a step relation that serves pending
  \<open>add_to_queue\<close> requests one at a time in any order, each handler call being atomic.
\<close>

type_synonym job_queue = "pyval list"

subsection \<open>Persistence collaborator (from the spec)\<close>

definition append_to_queue :: "pyval \<Rightarrow> job_queue \<Rightarrow> nat \<times> job_queue" where
  "append_to_queue job q = (length q, q @ [job])"

definition get_queue :: "job_queue \<Rightarrow> pyval list" where
  "get_queue q = q"

definition delete_from_queue :: "nat \<Rightarrow> job_queue \<Rightarrow> py_exc + job_queue" where
  "delete_from_queue pos q = (if pos < length q then Inr (take pos q @ drop (Suc pos) q) else Inl IndexError)"

subsection \<open>Handlers\<close>

text \<open>
  The request body arrives as text; \<open>None\<close> stands for a body \<open>json.loads\<close> rejects
  (ValueError). \<open>list_jobs\<close> returns the string \<open>json.dumps(...)\<close>, which
  \<open>RDumped\<close> records.
\<close>

definition position_response :: "nat \<Rightarrow> response" where
  "position_response pos = RJson (PDict [(''queue_position'', PInt (int pos))])"

definition add_to_queue :: "pyval option \<Rightarrow> job_queue \<Rightarrow> response \<times> job_queue" where
  "add_to_queue body q =
     (case body of
        None \<Rightarrow> (RRaise ValueError, q)
      | Some data \<Rightarrow>
          (case py_getitem data ''id'' of
             Inl e \<Rightarrow> (RRaise e, q)
           | Inr job \<Rightarrow> (let (pos, q') = append_to_queue job q in (position_response pos, q'))))"

definition list_jobs :: "job_queue \<Rightarrow> response" where
  "list_jobs q = RDumped (PList (get_queue q))"

definition remove_from_queue :: "nat \<Rightarrow> job_queue \<Rightarrow> response \<times> job_queue" where
  "remove_from_queue pos_idx q =
     (case delete_from_queue pos_idx q of
        Inl e \<Rightarrow> (RRaise e, q)
      | Inr q' \<Rightarrow> (RNoReturn, q'))"

text \<open>
  The route \<open>/queue/<int:queue_pos>\<close> passes the keyword \<open>queue_pos\<close>; the view's
  only parameter is \<open>pos_idx\<close>.
\<close>

definition queue_pos_args :: "nat \<Rightarrow> (string \<times> nat) list" where
  "queue_pos_args n = [(''queue_pos'', n)]"

definition route_remove_from_queue :: "(string \<times> nat) list \<Rightarrow> job_queue \<Rightarrow> response \<times> job_queue" where
  "route_remove_from_queue view_args q =
     (case bind_view_args [''pos_idx''] view_args of
        Some [pos_idx] \<Rightarrow> remove_from_queue pos_idx q
      | _ \<Rightarrow> (RRaise TypeError, q))"

subsection \<open>Sequences and interleavings of requests\<close>

definition add_request :: "pyval \<Rightarrow> pyval option" where
  "add_request job = Some (PDict [(''id'', job)])"

fun add_all :: "pyval list \<Rightarrow> job_queue \<Rightarrow> response list \<times> job_queue" where
  "add_all [] q = ([], q)"
| "add_all (j # js) q =
     (let (r, q') = add_to_queue (add_request j) q;
          (rs, q'') = add_all js q'
      in (r # rs, q''))"

record queue_sys =
  qs_pending :: "pyval multiset"
  qs_queue :: job_queue
  qs_served :: "(pyval \<times> response) list"

inductive queue_step :: "queue_sys \<Rightarrow> queue_sys \<Rightarrow> bool" where
  serve: "j \<in># qs_pending s \<Longrightarrow> add_to_queue (add_request j) (qs_queue s) = (r, q') \<Longrightarrow>
    queue_step s \<lparr>qs_pending = qs_pending s - {#j#}, qs_queue = q', qs_served = qs_served s @ [(j, r)]\<rparr>"

inductive queue_reach :: "job_queue \<Rightarrow> pyval multiset \<Rightarrow> queue_sys \<Rightarrow> bool" for q0 jobs where
  start: "queue_reach q0 jobs \<lparr>qs_pending = jobs, qs_queue = q0, qs_served = []\<rparr>"
| step: "queue_reach q0 jobs s \<Longrightarrow> queue_step s t \<Longrightarrow> queue_reach q0 jobs t"

definition queue_inv :: "job_queue \<Rightarrow> pyval multiset \<Rightarrow> queue_sys \<Rightarrow> bool" where
  "queue_inv q0 jobs s \<longleftrightarrow>
     mset (map fst (qs_served s)) + qs_pending s = jobs
     \<and> qs_queue s = q0 @ map fst (qs_served s)
     \<and> map snd (qs_served s) = map (\<lambda>i. position_response (length q0 + i)) [0..<length (qs_served s)]"

subsection \<open>Handler lemmas\<close>

lemma add_to_queue_request [simp]:
  "add_to_queue (add_request j) q = (position_response (length q), q @ [j])"
  by (simp add: add_to_queue_def add_request_def append_to_queue_def)

lemma add_all_eq:
  "add_all js q = (map (\<lambda>i. position_response (length q + i)) [0..<length js], q @ js)"
proof (induction js arbitrary: q)
  case Nil
  then show ?case by simp
next
  case (Cons j js)
  have "map (\<lambda>i. position_response (length q + i)) [0..<Suc (length js)]
      = position_response (length q) # map (\<lambda>i. position_response (Suc (length q) + i)) [0..<length js]"
    by (simp add: map_upt_Suc del: upt_Suc)
  with Cons show ?case by simp
qed

lemma queue_step_inv: "queue_step s t \<Longrightarrow> queue_inv q0 jobs s \<Longrightarrow> queue_inv q0 jobs t"
proof (induction rule: queue_step.induct)
  case (serve j s r q')
  then have r: "r = position_response (length (qs_queue s))" and q': "q' = qs_queue s @ [j]" by auto
  from serve.prems have "mset (map fst (qs_served s)) + qs_pending s = jobs"
    and qs: "qs_queue s = q0 @ map fst (qs_served s)"
    and rs: "map snd (qs_served s) = map (\<lambda>i. position_response (length q0 + i)) [0..<length (qs_served s)]"
    by (auto simp: queue_inv_def)
  moreover have "mset (map fst (qs_served s)) + {#j#} + (qs_pending s - {#j#})
      = mset (map fst (qs_served s)) + qs_pending s"
    using serve.hyps(1) by simp
  ultimately show ?case using r q' rs qs by (simp add: queue_inv_def)
qed

lemma queue_reach_inv: "queue_reach q0 jobs s \<Longrightarrow> queue_inv q0 jobs s"
proof (induction rule: queue_reach.induct)
  case start
  then show ?case by (simp add: queue_inv_def)
next
  case (step s t)
  then show ?case by (blast intro: queue_step_inv)
qed

lemma position_response_inj [simp]: "position_response m = position_response n \<longleftrightarrow> m = n"
  by (simp add: position_response_def)

lemma nth_take_drop_Suc:
  assumes "pos < length q" and "i < length q - 1"
  shows "(take pos q @ drop (Suc pos) q) ! i = q ! (if i < pos then i else Suc i)"
  using assms by (auto simp: nth_append min_def)

subsection \<open>Properties of the queue endpoints\<close>

text \<open>
  C8. \<open>DELETE /queue/<n>\<close> never removes anything: Flask passes the URL variable as
  the keyword \<open>queue_pos\<close>, the view only accepts \<open>pos_idx\<close>, the call raises
  TypeError (HTTP 500) and the queue is left as it was, for every position and queue.
\<close>

theorem route_remove_from_queue_always_fails:
  "route_remove_from_queue (queue_pos_args n) q = (RRaise TypeError, q)"
  by (simp add: route_remove_from_queue_def queue_pos_args_def bind_view_args_def)

text \<open>
  C9. FIFO: after a sequence of \<open>add_to_queue\<close> requests, \<open>list_jobs\<close> lists the
  earlier entries followed by the new ids in call order, and the \<open>k\<close>-th request was
  answered with the queue length before it, \<open>length q + k\<close>.
\<close>

theorem add_to_queue_fifo:
  "add_all js q = (rs, q') \<Longrightarrow>
     list_jobs q' = RDumped (PList (q @ js))
     \<and> rs = map (\<lambda>k. position_response (length q + k)) [0..<length js]"
  by (simp add: add_all_eq list_jobs_def get_queue_def)

text \<open>
  C10. Concurrent appends lose nothing: serving pending \<open>add_to_queue\<close> requests one
  at a time in any order, once all are served the queue holds the old entries followed by
  the new ids in the order served, as a multiset exactly the old entries plus the
  requested ids, and the positions handed out are pairwise distinct.
\<close>

theorem queue_concurrent_appends:
  assumes "queue_reach q0 jobs s" and "qs_pending s = {#}"
  shows "qs_queue s = q0 @ map fst (qs_served s)
    \<and> mset (qs_queue s) = mset q0 + jobs
    \<and> distinct (map snd (qs_served s))"
proof -
  from queue_reach_inv [OF assms(1)] have inv: "queue_inv q0 jobs s" .
  then have q: "qs_queue s = q0 @ map fst (qs_served s)"
    and m: "mset (map fst (qs_served s)) = jobs"
    and rs: "map snd (qs_served s) = map (\<lambda>i. position_response (length q0 + i)) [0..<length (qs_served s)]"
    using assms(2) by (auto simp: queue_inv_def)
  have "distinct (map (\<lambda>i. position_response (length q0 + i)) [0..<length (qs_served s)])"
    by (simp add: distinct_map inj_on_def)
  with q m rs show ?thesis by simp
qed

text \<open>
  A body that is not JSON, or whose value has no \<open>'id'\<close> entry, is rejected with
  the exception Python raises (HTTP 500) and the queue is unchanged.
\<close>

lemma add_to_queue_rejects_bad_body:
  "add_to_queue None q = (RRaise ValueError, q)
   \<and> (py_getitem data ''id'' = Inl e \<longrightarrow> add_to_queue (Some data) q = (RRaise e, q))"
  by (simp add: add_to_queue_def)

text \<open>
  C12. The body of \<open>remove_from_queue\<close>, were it reached, always ends in HTTP 500 (it
  returns \<open>None\<close>, or the collaborator raises for a position out of range); in range,
  later entries move down by one, out of range the queue is unchanged.
\<close>

theorem remove_from_queue_effect:
  assumes "remove_from_queue pos q = (r, q')"
  shows "flask_status r = 500
    \<and> (pos < length q \<longrightarrow> length q' = length q - 1
          \<and> (\<forall>i<length q'. q' ! i = q ! (if i < pos then i else Suc i)))
    \<and> (\<not> pos < length q \<longrightarrow> q' = q)"
  using assms nth_take_drop_Suc [of pos q]
  by (auto simp: remove_from_queue_def delete_from_queue_def split: if_splits)

subsection \<open>Concrete runs\<close>

theorem route_remove_from_queue_always_fails_witness:
  "route_remove_from_queue (queue_pos_args 0) [PInt 7] = (RRaise TypeError, [PInt 7])"
  by (rule route_remove_from_queue_always_fails)

theorem add_to_queue_fifo_witness:
  "list_jobs (snd (add_all [PInt 2, PInt 3] [PInt 1])) = RDumped (PList [PInt 1, PInt 2, PInt 3])
   \<and> fst (add_all [PInt 2, PInt 3] [PInt 1]) = [position_response 1, position_response 2]"
  using add_to_queue_fifo [of "[PInt 2, PInt 3]" "[PInt 1]"
      "fst (add_all [PInt 2, PInt 3] [PInt 1])" "snd (add_all [PInt 2, PInt 3] [PInt 1])"]
  by (simp add: upt_rec)

theorem queue_concurrent_appends_witness:
  "mset (qs_queue \<lparr>qs_pending = {#}, qs_queue = [PInt 2, PInt 1],
      qs_served = [(PInt 2, position_response 0), (PInt 1, position_response 1)]\<rparr>)
   = mset [] + {#PInt 1, PInt 2#}"
proof -
  let ?s0 = "\<lparr>qs_pending = {#PInt 1, PInt 2#}, qs_queue = [], qs_served = []\<rparr>"
  let ?s1 = "\<lparr>qs_pending = {#PInt 1#}, qs_queue = [PInt 2],
      qs_served = [(PInt 2, position_response 0)]\<rparr>"
  let ?s2 = "\<lparr>qs_pending = {#}, qs_queue = [PInt 2, PInt 1],
      qs_served = [(PInt 2, position_response 0), (PInt 1, position_response 1)]\<rparr>"
  have "queue_step ?s0 ?s1"
    using queue_step.serve [of "PInt 2" ?s0 "position_response 0" "[PInt 2]"] by simp
  moreover have "queue_step ?s1 ?s2"
    using queue_step.serve [of "PInt 1" ?s1 "position_response 1" "[PInt 2, PInt 1]"] by simp
  ultimately have "queue_reach [] {#PInt 1, PInt 2#} ?s2"
    by (meson queue_reach.start queue_reach.step)
  from queue_concurrent_appends [OF this] show ?thesis by simp
qed

theorem remove_from_queue_effect_witness:
  "flask_status (fst (remove_from_queue 0 [PInt 1, PInt 2])) = 500
   \<and> snd (remove_from_queue 0 [PInt 1, PInt 2]) ! 0 = PInt 2"
  using remove_from_queue_effect [of 0 "[PInt 1, PInt 2]"
      "fst (remove_from_queue 0 [PInt 1, PInt 2])" "snd (remove_from_queue 0 [PInt 1, PInt 2])"]
  by (simp add: remove_from_queue_def delete_from_queue_def)

end
