(* ===== verification/Submit.thy ===== *)
theory Submit
  imports Python
begin

text \<open>
  The hand-off of a captured workflow to the postprocessing server,
  \<open>submit_workflow\<close> (\<open>web.py\<close>, lines 223--264). The requests library is the
  transport: a function from the remote side's state and a POST request to an outcome
  (a response, or an exception raised by \<open>requests.post\<close>) and the next remote state.
  The handler returns its response together with the list of requests it sent, in order,
  and the final remote state. \<open>bool(resp)\<close> is requests' \<open>resp.ok\<close> (no 4xx or 5xx
  status); \<open>resp.json\<close> is the decoded body (the property of the requests API this code
  is written against, \<open>None\<close> when the body is not JSON). A requests response has no
  attribute \<open>code\<close>, so every \<open>abort(resp.code)\<close> raises AttributeError.
\<close>

datatype req_body =
    JsonData pyval
  | FilesData "(string \<times> (string \<times> blob) list) list"  \<comment> \<open>\<open>files={'file': {name: data}}\<close>\<close>

record http_request =
  req_url :: string
  req_body :: req_body

record http_response =
  status_code :: nat
  content :: string
  resp_json :: "pyval option"

datatype net_outcome = Responded http_response | Raised py_exc

type_synonym 'r transport = "'r \<Rightarrow> http_request \<Rightarrow> net_outcome \<times> 'r"

definition resp_ok :: "http_response \<Rightarrow> bool" where
  "resp_ok r \<longleftrightarrow> \<not> (400 \<le> status_code r \<and> status_code r < 600)"

definition resp_json_id :: "http_response \<Rightarrow> py_exc + pyval" where
  "resp_json_id r = (case resp_json r of None \<Rightarrow> Inl TypeError | Some v \<Rightarrow> py_getitem v ''id'')"

subsection \<open>The three requests\<close>

definition create_request :: "string \<Rightarrow> workflow \<Rightarrow> http_request" where
  "create_request server w =
     \<lparr>req_url = server @ ''/workflow'',
      req_body = JsonData (PDict [(''name'', PStr (path_stem (wf_path w))),
                                  (''step'', PStr ''capture''), (''step_done'', PBool True)])\<rparr>"

definition upload_url :: "string \<Rightarrow> pyval \<Rightarrow> py_exc + string" where
  "upload_url server remote_id = py_slash_join [PStr server, PStr ''workflow'', remote_id, PStr ''image'']"

definition upload_request :: "string \<Rightarrow> path \<Rightarrow> blob \<Rightarrow> http_request" where
  "upload_request url img data = \<lparr>req_url = url, req_body = FilesData [(''file'', [(path_name img, data)])]\<rparr>"

definition enqueue_request :: "string \<Rightarrow> pyval \<Rightarrow> http_request" where
  "enqueue_request server remote_id = \<lparr>req_url = server @ ''/queue'', req_body = JsonData (PDict [(''id'', remote_id)])\<rparr>"

subsection \<open>The handler\<close>

text \<open>
  The upload loop: \<open>None\<close> when every image was accepted, otherwise the response the
  handler ends with. The URL is built before the image is read (argument order).
\<close>

fun upload_images ::
  "'r transport \<Rightarrow> fs \<Rightarrow> string \<Rightarrow> pyval \<Rightarrow> path list \<Rightarrow> 'r \<Rightarrow> response option \<times> http_request list \<times> 'r"
where
  "upload_images tr fs server remote_id [] r = (None, [], r)"
| "upload_images tr fs server remote_id (img # imgs) r =
     (case upload_url server remote_id of
        Inl e \<Rightarrow> (Some (RRaise e), [], r)
      | Inr url \<Rightarrow>
          (case fs img of
             None \<Rightarrow> (Some (RRaise IOError), [], r)
           | Some data \<Rightarrow>
               (let req = upload_request url img data in
                case tr r req of
                  (Raised e, r') \<Rightarrow> (Some (RRaise e), [req], r')
                | (Responded resp, r') \<Rightarrow>
                    if resp_ok resp then
                      (case upload_images tr fs server remote_id imgs r' of
                         (res, reqs, r'') \<Rightarrow> (res, req # reqs, r''))
                    else (Some (RRaise AttributeError), [req], r'))))"

text \<open>
  The enqueue step. Its failure branch formats \<open>imgpath\<close>, the loop variable, which is
  unbound when the workflow has no images (UnboundLocalError); otherwise
  \<open>abort(resp.code)\<close> raises AttributeError. On success the view returns \<open>None\<close>.
\<close>

definition enqueue_step ::
  "'r transport \<Rightarrow> string \<Rightarrow> pyval \<Rightarrow> bool \<Rightarrow> 'r \<Rightarrow> response \<times> http_request list \<times> 'r"
where
  "enqueue_step tr server remote_id had_images r =
     (let req = enqueue_request server remote_id in
      case tr r req of
        (Raised e, r') \<Rightarrow> (RRaise e, [req], r')
      | (Responded resp, r') \<Rightarrow>
          if resp_ok resp then (RNoReturn, [req], r')
          else (RRaise (if had_images then AttributeError else UnboundLocalError), [req], r'))"

definition submit_workflow ::
  "app_config \<Rightarrow> workflow \<Rightarrow> fs \<Rightarrow> 'r transport \<Rightarrow> 'r \<Rightarrow> response \<times> http_request list \<times> 'r"
where
  "submit_workflow cfg w fs tr r =
     (if \<not> py_str_in (cfg_mode cfg) ''scanner'' then (RAbort 404, [], r)
      else case cfg_postproc_server cfg of
        None \<Rightarrow> (RAbort 500, [], r)
      | Some server \<Rightarrow>
          if server = [] then (RAbort 500, [], r)
          else
            (let creq = create_request server w in
             case tr r creq of
               (Raised e, r1) \<Rightarrow> (RRaise e, [creq], r1)
             | (Responded resp, r1) \<Rightarrow>
                 if \<not> resp_ok resp then (RRaise AttributeError, [creq], r1)
                 else
                   (case resp_json_id resp of
                      Inl e \<Rightarrow> (RRaise e, [creq], r1)
                    | Inr remote_id \<Rightarrow>
                        (case upload_images tr fs server remote_id (wf_images w) r1 of
                           (Some res, ureqs, r2) \<Rightarrow> (res, creq # ureqs, r2)
                         | (None, ureqs, r2) \<Rightarrow>
                             (case enqueue_step tr server remote_id (wf_images w \<noteq> []) r2 of
                                (res, qreqs, r3) \<Rightarrow> (res, creq # ureqs @ qreqs, r3))))))"

subsection \<open>The protocol the handler promises\<close>

text \<open>
  The requests of a complete hand-off: one create, one upload per readable image in the
  order of \<open>wf_images\<close>, one enqueue of the id the create step returned.
\<close>

definition upload_requests :: "fs \<Rightarrow> string \<Rightarrow> pyval \<Rightarrow> path list \<Rightarrow> http_request list" where
  "upload_requests fs server remote_id imgs =
     concat (map (\<lambda>img. case (upload_url server remote_id, fs img) of
                          (Inr url, Some data) \<Rightarrow> [upload_request url img data]
                        | _ \<Rightarrow> []) imgs)"


text \<open>A scripted remote for concrete runs: the \<open>n\<close>-th request gets the \<open>n\<close>-th outcome.\<close>

definition scripted :: "net_outcome list \<Rightarrow> nat transport" where
  "scripted outs n req = (if n < length outs then outs ! n else Raised ConnectionError, Suc n)"

text \<open>Data for the concrete runs: a scanner with two captured images.\<close>

abbreviation submit_cfg :: app_config where
  "submit_cfg \<equiv> \<lparr>cfg_mode = ''scanner'', cfg_debug = False, cfg_postproc_server = Some ''http://proc'',
    cfg_temp_dir = [''tmp''], cfg_base_path = [''books'']\<rparr>"

abbreviation submit_wf :: workflow where
  "submit_wf \<equiv> \<lparr>wf_id = 1, wf_path = [''books'', ''vol.1''],
    wf_images = [[''books'', ''vol.1'', ''raw'', ''a.jpg''], [''books'', ''vol.1'', ''raw'', ''b.jpg'']],
    wf_step = PStr ''capture'', wf_step_done = PBool True, wf_config = []\<rparr>"

abbreviation submit_fs :: fs where
  "submit_fs \<equiv> Map.empty([''books'', ''vol.1'', ''raw'', ''a.jpg''] \<mapsto> Picture 4 3 ''A'',
                           [''books'', ''vol.1'', ''raw'', ''b.jpg''] \<mapsto> Picture 4 3 ''B'')"

abbreviation ok_with :: "pyval option \<Rightarrow> net_outcome" where
  "ok_with j \<equiv> Responded \<lparr>status_code = 200, content = [], resp_json = j\<rparr>"

subsection \<open>Lemmas on the upload loop\<close>

lemma upload_images_prefix:
  assumes "upload_images tr fs server rid imgs r = (res, reqs, r')"
  shows "prefix reqs (upload_requests fs server rid imgs)
    \<and> (res = None \<longrightarrow> reqs = upload_requests fs server rid imgs \<and> (\<forall>img\<in>set imgs. fs img \<noteq> None)
         \<and> (imgs \<noteq> [] \<longrightarrow> (\<exists>url. upload_url server rid = Inr url)))
    \<and> (\<forall>x. res = Some x \<longrightarrow> (\<exists>e. x = RRaise e))"
  using assms
proof (induction imgs arbitrary: r res reqs r')
  case Nil
  then show ?case by (simp add: upload_requests_def)
next
  case (Cons img imgs)
  show ?case
  proof (cases "upload_url server rid")
    case (Inl e)
    with Cons.prems show ?thesis by auto
  next
    case (Inr url)
    show ?thesis
    proof (cases "fs img")
      case None
      with Cons.prems Inr show ?thesis by auto
    next
      case (Some data)
      have ups: "upload_requests fs server rid (img # imgs)
          = upload_request url img data # upload_requests fs server rid imgs"
        using Inr Some by (simp add: upload_requests_def)
      show ?thesis
      proof (cases "tr r (upload_request url img data)")
        case (Pair out r1)
        show ?thesis
        proof (cases out)
          case (Raised e)
          with Cons.prems Inr Some Pair ups show ?thesis by auto
        next
          case (Responded resp)
          show ?thesis
          proof (cases "resp_ok resp")
            case False
            with Cons.prems Inr Some Pair Responded ups show ?thesis by auto
          next
            case True
            obtain res1 reqs1 r2 where rec: "upload_images tr fs server rid imgs r1 = (res1, reqs1, r2)"
              by (metis prod_cases3)
            with Cons.prems Inr Some Pair Responded True
            have "res = res1" and "reqs = upload_request url img data # reqs1" by auto
            with Cons.IH [OF rec] ups Some Inr show ?thesis by auto
          qed
        qed
      qed
    qed
  qed
qed

lemma upload_requests_Nil [simp]: "upload_requests fs server rid [] = []"
  by (simp add: upload_requests_def)


lemma enqueue_ne_create [simp]: "enqueue_request s rid \<noteq> create_request s' w"
  by (simp add: enqueue_request_def create_request_def)

lemma enqueue_request_inj [simp]: "enqueue_request s rid = enqueue_request s rid' \<longleftrightarrow> rid = rid'"
  by (simp add: enqueue_request_def)




lemma upload_url_not_str: "(\<forall>s. rid \<noteq> PStr s) \<Longrightarrow> upload_url server rid = Inl TypeError"
  by (cases rid) (auto simp: upload_url_def py_slash_join_def)

lemmas submit_unfold = submit_workflow_def Let_def enqueue_step_def

subsection \<open>Properties of the hand-off\<close>

text \<open>
  C13. Both preconditions are checked before any network activity: a mode that is not a
  substring of \<open>'scanner'\<close> gets 404, and a missing or empty \<open>postproc_server\<close>
  gets 500; in both cases nothing is sent and the remote state is untouched.
\<close>

theorem submit_guards:
  "(\<not> py_str_in (cfg_mode cfg) ''scanner'' \<longrightarrow> submit_workflow cfg w fs tr r = (RAbort 404, [], r))
   \<and> (py_str_in (cfg_mode cfg) ''scanner'' \<and> cfg_postproc_server cfg \<in> {None, Some []}
        \<longrightarrow> submit_workflow cfg w fs tr r = (RAbort 500, [], r))"
  by (auto simp: submit_workflow_def)

text \<open>
  C14. The submit endpoint never answers with success: every run ends in 404, in an
  exception, or, after a complete hand-off, in a view that returns \<open>None\<close>; all of
  these are HTTP 404 or 500.
\<close>

theorem submit_never_reports_success:
  "flask_status (fst (submit_workflow cfg w fs tr r)) \<in> {404, 500}"
proof -
  obtain res sent r' where run: "submit_workflow cfg w fs tr r = (res, sent, r')"
    by (metis prod_cases3)
  have "res = RAbort 404 \<or> res = RAbort 500 \<or> res = RNoReturn \<or> (\<exists>e. res = RRaise e)"
    using run
    by (auto simp: submit_unfold split: if_splits option.splits prod.splits net_outcome.splits sum.splits
        dest!: upload_images_prefix)
  with run show ?thesis by auto
qed




text \<open>
  C18. If the remote names the new workflow with a non-string id (an int, as a database
  row id would be) and there is at least one image, building the upload URL with
  \<open>"/".join\<close> raises TypeError: only the create request was sent, no image is
  uploaded and nothing is enqueued, while the remote workflow now exists.
\<close>

theorem submit_nonstring_id:
  assumes "py_str_in (cfg_mode cfg) ''scanner''" and "cfg_postproc_server cfg = Some server"
    and "server \<noteq> []" and "wf_images w \<noteq> []"
    and "tr r (create_request server w) = (Responded resp, r1)" and "resp_ok resp"
    and "resp_json resp = Some (PDict [(''id'', PInt n)])"
  shows "submit_workflow cfg w fs tr r = (RRaise TypeError, [create_request server w], r1)"
proof -
  obtain img imgs where "wf_images w = img # imgs" using assms(4) by (cases "wf_images w") auto
  then show ?thesis using assms upload_url_not_str [of "PInt n" server]
    by (simp add: submit_unfold resp_json_id_def)
qed

text \<open>
  C19. The remote workflow is named after the stem of the local directory, not its name:
  for a directory \<open>a.b\<close> with an inner dot the create request asks for \<open>a\<close>.
\<close>

theorem submit_remote_name_is_stem:
  assumes "wf_path w = p @ [a @ CHR ''.'' # b]" and "CHR ''.'' \<notin> set b" and "a \<noteq> []" and "b \<noteq> []"
  shows "req_body (create_request server w)
    = JsonData (PDict [(''name'', PStr a), (''step'', PStr ''capture''), (''step_done'', PBool True)])"
  using assms name_stem_inner_dot [of b a]
  by (simp add: create_request_def path_stem_def path_name_def)

subsection \<open>Concrete runs\<close>

theorem submit_guards_witness:
  "submit_workflow (submit_cfg\<lparr>cfg_mode := ''full''\<rparr>) submit_wf submit_fs (scripted []) 0 = (RAbort 404, [], 0)
   \<and> submit_workflow (submit_cfg\<lparr>cfg_postproc_server := None\<rparr>) submit_wf submit_fs (scripted []) 0
       = (RAbort 500, [], 0)"
  using submit_guards [of "submit_cfg\<lparr>cfg_mode := ''full''\<rparr>" submit_wf submit_fs "scripted []" 0]
    submit_guards [of "submit_cfg\<lparr>cfg_postproc_server := None\<rparr>" submit_wf submit_fs "scripted []" 0]
  by (simp add: py_str_in_def sublist_code)




theorem submit_nonstring_id_witness:
  "submit_workflow submit_cfg submit_wf submit_fs (scripted [ok_with (Some (PDict [(''id'', PInt 7)]))]) 0
     = (RRaise TypeError, [create_request ''http://proc'' submit_wf], 1)"
  using submit_nonstring_id [of submit_cfg "''http://proc''" submit_wf
      "scripted [ok_with (Some (PDict [(''id'', PInt 7)]))]" 0 _ 1 7 submit_fs]
  by (simp add: py_str_in_def scripted_def resp_ok_def)

theorem submit_remote_name_is_stem_witness:
  "req_body (create_request ''http://proc'' submit_wf)
     = JsonData (PDict [(''name'', PStr ''vol''), (''step'', PStr ''capture''), (''step_done'', PBool True)])"
  using submit_remote_name_is_stem [of submit_wf "[''books'']" "''vol''" "''1''" "''http://proc''"]
  by simp

end
