(* ===== verification/Thumbnail.thy ===== *)
theory Thumbnail
  imports Python Complex_Main
begin

text \<open>
  Image access and the thumbnail cache: \<open>get_workflow_image\<close> and
  \<open>get_workflow_image_thumb\<close> (\<open>web.py\<close>, lines 317--345). The filesystem is a map
  from paths to contents; the cache is the set of files under \<open>temp_dir\<close> named
  \<open>"{id}_{index}.jpg"\<close>. The thumbnail height \<open>int(300/(w/float(h)))\<close> is computed
  on exact rationals, \<open>300 * h div w\<close>; IEEE rounding of the two float divisions can
  make Python's value one less where \<open>300 h / w\<close> is an integer, which the model does
  not reproduce. wand's \<open>sample\<close> rejects a height below 1 with ValueError.
\<close>

definition thumb_width :: nat where
  "thumb_width = 300"

definition thumb_name :: "nat \<Rightarrow> nat \<Rightarrow> string" where
  "thumb_name wid img_num = nat_str wid @ ''_'' @ nat_str img_num @ ''.jpg''"

definition thumb_path :: "app_config \<Rightarrow> workflow \<Rightarrow> nat \<Rightarrow> path" where
  "thumb_path cfg w img_num = cfg_temp_dir cfg @ [thumb_name (wf_id w) img_num]"

definition thumb_height :: "nat \<Rightarrow> nat \<Rightarrow> py_exc + nat" where
  "thumb_height width height =
     (if height = 0 \<or> width = 0 then Inl ZeroDivisionError else Inr (thumb_width * height div width))"


definition sample_image :: "blob \<Rightarrow> nat \<Rightarrow> nat \<Rightarrow> py_exc + blob" where
  "sample_image img w h = (if w < 1 \<or> h < 1 then Inl ValueError else Inr (Sampled img w h))"

definition get_workflow_image :: "workflow \<Rightarrow> nat \<Rightarrow> fs \<Rightarrow> response" where
  "get_workflow_image w img_num fs =
     (if img_num < length (wf_images w) then send_file fs (wf_images w ! img_num) else RAbort 404)"

text \<open>
  Generating the thumbnail: open the source with wand (a missing or non-image file is a
  wand error), compute the height, sample, save.
\<close>

definition make_thumb :: "fs \<Rightarrow> path \<Rightarrow> path \<Rightarrow> py_exc + fs" where
  "make_thumb fs img_path thumbfile =
     (case fs img_path of
        None \<Rightarrow> Inl WandError
      | Some img \<Rightarrow>
          (case image_size img of
             Inl e \<Rightarrow> Inl e
           | Inr (width, height) \<Rightarrow>
               (case thumb_height width height of
                  Inl e \<Rightarrow> Inl e
                | Inr th \<Rightarrow>
                    (case sample_image img thumb_width th of
                       Inl e \<Rightarrow> Inl e
                     | Inr t \<Rightarrow> Inr (fs(thumbfile \<mapsto> t))))))"

definition get_workflow_image_thumb :: "app_config \<Rightarrow> workflow \<Rightarrow> nat \<Rightarrow> fs \<Rightarrow> response \<times> fs" where
  "get_workflow_image_thumb cfg w img_num fs =
     (let thumbfile = thumb_path cfg w img_num in
      if \<not> img_num < length (wf_images w) then (RAbort 404, fs)
      else if fs thumbfile \<noteq> None then (send_file fs thumbfile, fs)
      else
        (case make_thumb fs (wf_images w ! img_num) thumbfile of
           Inl e \<Rightarrow> (RRaise e, fs)
         | Inr fs' \<Rightarrow> (send_file fs' thumbfile, fs')))"

text \<open>Data for the concrete runs.\<close>

abbreviation thumb_cfg :: app_config where
  "thumb_cfg \<equiv> \<lparr>cfg_mode = ''full'', cfg_debug = False, cfg_postproc_server = None,
    cfg_temp_dir = [''tmp''], cfg_base_path = [''books'']\<rparr>"

abbreviation thumb_wf :: workflow where
  "thumb_wf \<equiv> \<lparr>wf_id = 12, wf_path = [''books'', ''demo''],
    wf_images = [[''books'', ''demo'', ''raw'', ''000.jpg''], [''books'', ''demo'', ''raw'', ''001.jpg'']],
    wf_step = PStr ''capture'', wf_step_done = PBool True, wf_config = []\<rparr>"

abbreviation thumb_fs :: fs where
  "thumb_fs \<equiv> Map.empty([''books'', ''demo'', ''raw'', ''000.jpg''] \<mapsto> Picture 4000 3000 ''p0'',
                           [''books'', ''demo'', ''raw'', ''001.jpg''] \<mapsto> Picture 3000 4000 ''p1'')"

subsection \<open>Lemmas\<close>

lemma make_thumb_Inr_thumbfile:
  assumes "make_thumb fs src tf = Inr fs'"
  shows "fs' = fs(tf \<mapsto> the (fs' tf)) \<and> fs' tf \<noteq> None"
  using assms
  by (auto simp: make_thumb_def sample_image_def split: option.splits sum.splits prod.splits if_splits)


lemma thumb_name_split:
  "thumb_name a b = nat_str a @ CHR ''_'' # (nat_str b @ ''.jpg'')"
  by (simp add: thumb_name_def)

lemma thumb_path_not_raw [simp]:
  "thumb_path thumb_cfg w n \<noteq> [''books'', ''demo'', ''raw'', x]"
  "[''books'', ''demo'', ''raw'', x] \<noteq> thumb_path thumb_cfg w n"
  by (simp_all add: thumb_path_def)

lemmas thumb_unfold = get_workflow_image_thumb_def Let_def send_file_def

subsection \<open>Properties of the thumbnail cache\<close>




text \<open>
  C23. The cache key is injective: two (workflow id, index) pairs share a thumbnail
  file name only if they are equal.
\<close>

theorem thumb_name_injective:
  "thumb_name a b = thumb_name c d \<longleftrightarrow> a = c \<and> b = d"
proof
  assume "thumb_name a b = thumb_name c d"
  then have "nat_str a @ CHR ''_'' # (nat_str b @ ''.jpg'') = nat_str c @ CHR ''_'' # (nat_str d @ ''.jpg'')"
    by (simp only: thumb_name_split)
  then have "nat_str a = nat_str c \<and> nat_str b @ ''.jpg'' = nat_str d @ ''.jpg''"
    by (rule append_sep_unique [OF underscore_not_in_nat_str underscore_not_in_nat_str])
  then show "a = c \<and> b = d" by (simp only: nat_str_inj append_suffix_cancel)
qed simp

text \<open>
  C24. Staleness: once a file exists at the key's path it is returned as it is,
  whatever the source image now holds, and nothing is regenerated.
\<close>

theorem thumb_cache_hit_stale:
  assumes "n < length (wf_images w)" and "fs (thumb_path cfg w n) = Some t"
    and "wf_images w ! n \<noteq> thumb_path cfg w n"
  shows "get_workflow_image_thumb cfg w n (fs(wf_images w ! n := src)) =
    (RFile (thumb_path cfg w n) t, fs(wf_images w ! n := src))"
  using assms by (simp add: thumb_unfold)


text \<open>An index beyond the workflow's images is answered with 404 by both image endpoints.\<close>

lemma image_index_out_of_range:
  assumes "\<not> n < length (wf_images w)"
  shows "get_workflow_image_thumb cfg w n fs = (RAbort 404, fs) \<and> get_workflow_image w n fs = RAbort 404"
  using assms by (simp add: thumb_unfold get_workflow_image_def)

text \<open>
  C26. A source more than 300 times wider than high gets height 0, which wand's
  \<open>sample\<close> rejects: the request fails with ValueError and no thumbnail is stored.
\<close>

theorem thumb_too_wide_fails:
  assumes "n < length (wf_images w)" and "fs (thumb_path cfg w n) = None"
    and "fs (wf_images w ! n) = Some (Picture width height d)"
    and "0 < height" and "300 * height < width"
  shows "get_workflow_image_thumb cfg w n fs = (RRaise ValueError, fs)"
  using assms
  by (simp add: thumb_unfold make_thumb_def thumb_height_def sample_image_def thumb_width_def)

text \<open>
  C27. Frame: a thumbnail request writes at most the file at its own key; every other
  path, the source images included, keeps its content.
\<close>

theorem thumb_frame:
  assumes "get_workflow_image_thumb cfg w n fs = (r, fs')" and "p \<noteq> thumb_path cfg w n"
  shows "fs' p = fs p"
  using assms make_thumb_Inr_thumbfile [of fs "wf_images w ! n" "thumb_path cfg w n"]
  by (auto simp: thumb_unfold split: if_splits sum.splits)

subsection \<open>Concrete runs\<close>




theorem thumb_cache_hit_stale_witness:
  "get_workflow_image_thumb thumb_cfg thumb_wf 0
     ((thumb_fs(thumb_path thumb_cfg thumb_wf 0 \<mapsto> Bytes ''old''))
        ([''books'', ''demo'', ''raw'', ''000.jpg''] := Some (Picture 10 10 ''new'')))
   = (RFile (thumb_path thumb_cfg thumb_wf 0) (Bytes ''old''),
      (thumb_fs(thumb_path thumb_cfg thumb_wf 0 \<mapsto> Bytes ''old''))
        ([''books'', ''demo'', ''raw'', ''000.jpg''] := Some (Picture 10 10 ''new'')))"
  using thumb_cache_hit_stale [where n = 0 and w = thumb_wf and cfg = thumb_cfg
      and fs = "thumb_fs(thumb_path thumb_cfg thumb_wf 0 \<mapsto> Bytes ''old'')"
      and t = "Bytes ''old''" and src = "Some (Picture 10 10 ''new'')"]
  by simp

theorem thumb_too_wide_fails_witness:
  "get_workflow_image_thumb thumb_cfg thumb_wf 0 (thumb_fs([''books'', ''demo'', ''raw'', ''000.jpg''] \<mapsto> Picture 9000 20 ''pan''))
     = (RRaise ValueError, thumb_fs([''books'', ''demo'', ''raw'', ''000.jpg''] \<mapsto> Picture 9000 20 ''pan''))"
  using thumb_too_wide_fails [where n = 0 and w = thumb_wf and cfg = thumb_cfg
      and fs = "thumb_fs([''books'', ''demo'', ''raw'', ''000.jpg''] \<mapsto> Picture 9000 20 ''pan'')"
      and width = 9000 and height = 20 and d = "''pan''"]
  by simp

theorem thumb_frame_witness:
  "snd (get_workflow_image_thumb thumb_cfg thumb_wf 1 thumb_fs) [''books'', ''demo'', ''raw'', ''001.jpg'']
     = Some (Picture 3000 4000 ''p1'')"
  using thumb_frame [of thumb_cfg thumb_wf 1 thumb_fs "fst (get_workflow_image_thumb thumb_cfg thumb_wf 1 thumb_fs)"
      "snd (get_workflow_image_thumb thumb_cfg thumb_wf 1 thumb_fs)" "[''books'', ''demo'', ''raw'', ''001.jpg'']"]
  by simp

end
