(* ===== verification/Capture.thy ===== *)
theory Capture
  imports Python
begin

text \<open>
  Capture control: \<open>trigger_capture\<close> and \<open>finish_capture\<close> (\<open>web.py\<close>, lines
  351--378). The workflow methods they call (\<open>prepare_capture\<close>, \<open>capture\<close>,
  \<open>finish_capture\<close> of \<open>spreads.workflow.Workflow\<close>) are outside the sources; they are
  the interface \<open>wf_ops\<close>, a record of state transformers, and every lemma about a
  sequence of captures states what it needs of them as a hypothesis. The image URL helper
  of \<open>util\<close> is the parameter \<open>image_url\<close>.
\<close>

record wf_ops =
  op_prepare_capture :: "workflow \<Rightarrow> workflow"
  op_capture :: "bool \<Rightarrow> workflow \<Rightarrow> workflow"
  op_finish_capture :: "workflow \<Rightarrow> workflow"

definition capture_modes :: "string list" where
  "capture_modes = [''scanner'', ''full'']"

text \<open>\<open>xs[-2:]\<close>: the last two elements, or the whole list when it is shorter.\<close>

definition py_last_two :: "'a list \<Rightarrow> 'a list" where
  "py_last_two xs = drop (length xs - 2) xs"

definition capture_reply :: "(workflow \<Rightarrow> path \<Rightarrow> pyval) \<Rightarrow> workflow \<Rightarrow> response" where
  "capture_reply image_url w =
     RJson (PDict [(''pages_shot'', PInt (int (length (wf_images w)))),
                   (''images'', PList (map (image_url w) (py_last_two (wf_images w))))])"

definition trigger_capture ::
  "app_config \<Rightarrow> wf_ops \<Rightarrow> (workflow \<Rightarrow> path \<Rightarrow> pyval) \<Rightarrow> bool \<Rightarrow> workflow \<Rightarrow> response \<times> workflow"
where
  "trigger_capture cfg ops image_url retake w =
     (if cfg_mode cfg \<notin> set capture_modes then (RAbort 404, w)
      else
        (let w1 = (if wf_step w \<noteq> PStr ''capture'' then op_prepare_capture ops w else w);
             w2 = op_capture ops retake w1
         in (capture_reply image_url w2, w2)))"

definition finish_capture :: "app_config \<Rightarrow> wf_ops \<Rightarrow> workflow \<Rightarrow> response \<times> workflow" where
  "finish_capture cfg ops w =
     (if cfg_mode cfg \<notin> set capture_modes then (RAbort 404, w)
      else (RText ''OK'', op_finish_capture ops w))"

text \<open>A sequence of capture requests on one workflow, each flag the request's \<open>retake\<close>.\<close>

fun capture_run ::
  "app_config \<Rightarrow> wf_ops \<Rightarrow> (workflow \<Rightarrow> path \<Rightarrow> pyval) \<Rightarrow> bool list \<Rightarrow> workflow \<Rightarrow> response list \<times> workflow"
where
  "capture_run cfg ops image_url [] w = ([], w)"
| "capture_run cfg ops image_url (rt # rts) w =
     (let (r, w') = trigger_capture cfg ops image_url rt w;
          (rs, w'') = capture_run cfg ops image_url rts w'
      in (r # rs, w''))"

text \<open>
  What the scanner's workflow class is expected to do: preparing enters the capture step,
  capturing keeps the step.
\<close>

definition prepare_enters_capture :: "wf_ops \<Rightarrow> bool" where
  "prepare_enters_capture ops \<longleftrightarrow> (\<forall>w. wf_step (op_prepare_capture ops w) = PStr ''capture'')"

definition capture_keeps_step :: "wf_ops \<Rightarrow> bool" where
  "capture_keeps_step ops \<longleftrightarrow> (\<forall>rt w. wf_step (op_capture ops rt w) = wf_step w)"

text \<open>An interface instance for the concrete runs: each shot appends one image, a retake replaces the last.\<close>

definition demo_ops :: wf_ops where
  "demo_ops =
     \<lparr>op_prepare_capture = (\<lambda>w. w\<lparr>wf_step := PStr ''capture'', wf_step_done := PBool False\<rparr>),
      op_capture = (\<lambda>rt w. w\<lparr>wf_images := (if rt then butlast (wf_images w) else wf_images w)
                                            @ [[''raw'', nat_str (length (wf_images w))]]\<rparr>),
      op_finish_capture = (\<lambda>w. w\<lparr>wf_step_done := PBool True\<rparr>)\<rparr>"

abbreviation capture_cfg :: "string \<Rightarrow> app_config" where
  "capture_cfg m \<equiv> \<lparr>cfg_mode = m, cfg_debug = False, cfg_postproc_server = None,
    cfg_temp_dir = [''tmp''], cfg_base_path = [''books'']\<rparr>"

abbreviation capture_wf :: workflow where
  "capture_wf \<equiv> \<lparr>wf_id = 3, wf_path = [''books'', ''b''], wf_images = [],
    wf_step = PNone, wf_step_done = PNone, wf_config = []\<rparr>"

subsection \<open>Lemmas\<close>

lemma trigger_capture_in_mode:
  assumes "cfg_mode cfg \<in> set capture_modes"
  shows "snd (trigger_capture cfg ops image_url rt w)
    = op_capture ops rt (if wf_step w = PStr ''capture'' then w else op_prepare_capture ops w)"
  using assms by (simp add: trigger_capture_def Let_def)

lemma trigger_capture_step:
  assumes "cfg_mode cfg \<in> set capture_modes" and "prepare_enters_capture ops" and "capture_keeps_step ops"
  shows "wf_step (snd (trigger_capture cfg ops image_url rt w)) = PStr ''capture''"
  using assms by (simp add: trigger_capture_in_mode prepare_enters_capture_def capture_keeps_step_def)

lemma capture_run_no_prepare:
  assumes "cfg_mode cfg \<in> set capture_modes" and "capture_keeps_step ops"
    and "wf_step w = PStr ''capture''"
  shows "snd (capture_run cfg ops image_url rts w) = fold (op_capture ops) rts w"
  using assms(3)
proof (induction rts arbitrary: w)
  case Nil
  then show ?case by simp
next
  case (Cons rt rts)
  have "snd (trigger_capture cfg ops image_url rt w) = op_capture ops rt w"
    using trigger_capture_in_mode [OF assms(1)] Cons.prems by simp
  moreover have "wf_step (op_capture ops rt w) = PStr ''capture''"
    using assms(2) Cons.prems by (simp add: capture_keeps_step_def)
  ultimately show ?case using Cons.IH by (simp add: split_def Let_def)
qed

subsection \<open>Properties of capture control\<close>

text \<open>
  Outside the scanner and full modes both capture endpoints answer 404 without calling
  any workflow method (the mode test here is tuple membership, unlike submit's).
\<close>

lemma capture_mode_guard:
  assumes "cfg_mode cfg \<notin> set capture_modes"
  shows "trigger_capture cfg ops image_url rt w = (RAbort 404, w) \<and> finish_capture cfg ops w = (RAbort 404, w)"
  using assms by (simp add: trigger_capture_def finish_capture_def)

text \<open>
  C29. Over a sequence of capture requests the workflow is prepared at most once, before
  the first shot, when the workflow class enters the capture step on preparation and
  keeps it on capture: the result is the shots applied in request order.
\<close>

theorem capture_prepares_at_most_once:
  assumes "cfg_mode cfg \<in> set capture_modes" and "prepare_enters_capture ops" and "capture_keeps_step ops"
  shows "snd (capture_run cfg ops image_url (rt # rts) w)
    = fold (op_capture ops) rts (op_capture ops rt (if wf_step w = PStr ''capture'' then w else op_prepare_capture ops w))"
proof -
  obtain r w' where first: "trigger_capture cfg ops image_url rt w = (r, w')" by fastforce
  then have w': "w' = op_capture ops rt (if wf_step w = PStr ''capture'' then w else op_prepare_capture ops w)"
    using trigger_capture_in_mode [OF assms(1), of ops image_url rt w] by simp
  have "wf_step w' = PStr ''capture''"
    using trigger_capture_step [OF assms, of image_url rt w] first by simp
  then have "snd (capture_run cfg ops image_url rts w') = fold (op_capture ops) rts w'"
    using capture_run_no_prepare [OF assms(1,3)] by blast
  with first w' show ?thesis by (simp add: split_def Let_def)
qed

subsection \<open>Concrete runs\<close>

theorem capture_prepares_at_most_once_witness:
  "length (wf_images (snd (capture_run (capture_cfg ''full'') demo_ops (\<lambda>w p. PStr (path_name p))
      [False, False, True] capture_wf))) = 2"
proof -
  have pre: "prepare_enters_capture demo_ops" and keep: "capture_keeps_step demo_ops"
    by (simp_all add: prepare_enters_capture_def capture_keeps_step_def demo_ops_def)
  have m: "cfg_mode (capture_cfg ''full'') \<in> set capture_modes" by (simp add: capture_modes_def)
  show ?thesis
    using capture_prepares_at_most_once [OF m pre keep, of "\<lambda>w p. PStr (path_name p)" False "[False, True]" capture_wf]
    by (simp add: demo_ops_def)
qed

end
