(* ===== verification/Upload.thy ===== *)
theory Upload
  imports Python
begin

text \<open>
  Image upload: \<open>upload_workflow_image\<close> (\<open>web.py\<close>, lines 298--314), the endpoint a
  scanner's hand-off posts each image to. The disk is a filesystem map with the set of
  existing directories (\<open>disk\<close>, from \<open>Python\<close>). \<open>request.files\<close> is an association list from field names to
  uploaded files; a missing field is werkzeug's BadRequestKeyError (HTTP 400). A file
  object is false when its file name is empty. \<open>secure_filename\<close> of werkzeug is the
  parameter \<open>secure\<close>.
\<close>

record file_storage =
  fst_filename :: string
  fst_data :: blob

definition ascii_lower :: "char \<Rightarrow> char" where
  "ascii_lower c = (let k = (of_char c :: nat) in if 65 \<le> k \<and> k \<le> 90 then char_of (k + 32) else c)"

definition allowed_exts :: "string list" where
  "allowed_exts = [''jpg'', ''jpeg'', ''dng'']"

text \<open>\<open>x.rsplit('.', 1)[1].lower() in ('jpg', 'jpeg', 'dng')\<close>: IndexError without a dot.\<close>

definition allowed :: "string \<Rightarrow> py_exc + bool" where
  "allowed fname =
     (case rfind CHR ''.'' fname of
        None \<Rightarrow> Inl IndexError
      | Some i \<Rightarrow> Inr (map ascii_lower (drop (Suc i) fname) \<in> set allowed_exts))"

text \<open>\<open>save_path.mkdir()\<close>: fails unless the parent directory exists.\<close>

definition mkdir :: "path \<Rightarrow> disk \<Rightarrow> py_exc + disk" where
  "mkdir p d = (if butlast p \<in> disk_dirs d then Inr (d\<lparr>disk_dirs := insert p (disk_dirs d)\<rparr>) else Inl IOError)"

definition upload_workflow_image ::
  "(string \<Rightarrow> string) \<Rightarrow> workflow \<Rightarrow> (string \<times> file_storage) list \<Rightarrow> disk \<Rightarrow> response \<times> disk"
where
  "upload_workflow_image secure w files d =
     (case map_of files ''file'' of
        None \<Rightarrow> (RAbort 400, d)
      | Some file \<Rightarrow>
          (let save_path = wf_path w @ [''raw''] in
           case (if save_path \<in> disk_dirs d then Inr d else mkdir save_path d) of
             Inl e \<Rightarrow> (RRaise e, d)
           | Inr d1 \<Rightarrow>
               if fst_filename file = [] then (RNoReturn, d1)
               else
                 (case allowed (fst_filename file) of
                    Inl e \<Rightarrow> (RRaise e, d1)
                  | Inr False \<Rightarrow> (RNoReturn, d1)
                  | Inr True \<Rightarrow>
                      (RText ''OK'',
                       d1\<lparr>disk_files := (disk_files d1)(save_path @ [secure (fst_filename file)] \<mapsto> fst_data file)\<rparr>))))"

text \<open>Data for the concrete runs.\<close>

abbreviation upload_wf :: workflow where
  "upload_wf \<equiv> \<lparr>wf_id = 5, wf_path = [''books'', ''b''], wf_images = [],
    wf_step = PStr ''capture'', wf_step_done = PBool True, wf_config = []\<rparr>"

abbreviation upload_disk :: disk where
  "upload_disk \<equiv> \<lparr>disk_files = Map.empty, disk_dirs = {[''books''], [''books'', ''b'']}\<rparr>"

subsection \<open>Lemmas\<close>

lemma allowed_upper_jpg: "allowed ''IMG_0001.JPG'' = Inr True"
  by code_simp

lemma allowed_tiff: "allowed ''scan.tiff'' = Inr False"
  by code_simp

lemma allowed_True_ext:
  assumes "allowed fname = Inr True"
  shows "\<exists>i. rfind CHR ''.'' fname = Some i \<and> map ascii_lower (drop (Suc i) fname) \<in> set allowed_exts"
  using assms by (auto simp: allowed_def split: option.splits)

lemma upload_dirs_grow:
  assumes "upload_workflow_image secure w files d = (r, d')"
  shows "disk_dirs d \<subseteq> disk_dirs d'"
  using assms
  by (auto simp: upload_workflow_image_def Let_def mkdir_def
      split: option.splits if_splits sum.splits bool.splits)

lemma allowed_nonempty: "allowed fname = Inr b \<Longrightarrow> fname \<noteq> []"
  by (auto simp: allowed_def rfind_def split: option.splits)

lemmas upload_unfold = upload_workflow_image_def Let_def mkdir_def

subsection \<open>Properties of the upload endpoint\<close>

text \<open>
  C31. A file with an allowed extension (jpg, jpeg, dng in any letter case) is stored
  under the workflow's \<open>raw\<close> directory with its secured name, the directory being
  created when missing, and the endpoint answers "OK".
\<close>

theorem upload_saves_allowed:
  assumes "map_of files ''file'' = Some f" and "wf_path w \<in> disk_dirs d"
    and "allowed (fst_filename f) = Inr True"
  shows "upload_workflow_image secure w files d =
    (RText ''OK'', \<lparr>disk_files = (disk_files d)(wf_path w @ [''raw'', secure (fst_filename f)] \<mapsto> fst_data f),
                   disk_dirs = insert (wf_path w @ [''raw'']) (disk_dirs d)\<rparr>)"
  using assms allowed_nonempty [OF assms(3)]
  by (simp add: upload_unfold insert_absorb)

text \<open>
  C32. A file whose name has no allowed extension is never stored: the answer is HTTP
  500 (the view returns \<open>None\<close>, or \<open>rsplit\<close> raises IndexError for a name without
  a dot) instead of a client error, and the \<open>raw\<close> directory has been created anyway.
\<close>

theorem upload_rejects_disallowed:
  assumes "upload_workflow_image secure w files d = (r, d')" and "map_of files ''file'' = Some f"
    and "allowed (fst_filename f) \<noteq> Inr True" and "wf_path w \<in> disk_dirs d"
  shows "disk_files d' = disk_files d \<and> flask_status r = 500 \<and> wf_path w @ [''raw''] \<in> disk_dirs d'"
  using assms
  by (auto simp: upload_unfold split: if_splits sum.splits bool.splits)

subsection \<open>Concrete runs\<close>

theorem upload_saves_allowed_witness:
  "upload_workflow_image id upload_wf [(''file'', \<lparr>fst_filename = ''IMG_0001.JPG'', fst_data = Picture 4 3 ''x''\<rparr>)] upload_disk
   = (RText ''OK'', \<lparr>disk_files = [[''books'', ''b'', ''raw'', ''IMG_0001.JPG''] \<mapsto> Picture 4 3 ''x''],
                    disk_dirs = {[''books'', ''b'', ''raw''], [''books''], [''books'', ''b'']}\<rparr>)"
  using upload_saves_allowed [where files = "[(''file'', \<lparr>fst_filename = ''IMG_0001.JPG'', fst_data = Picture 4 3 ''x''\<rparr>)]"
      and f = "\<lparr>fst_filename = ''IMG_0001.JPG'', fst_data = Picture 4 3 ''x''\<rparr>" and w = upload_wf
      and d = upload_disk and secure = id]
  by (simp add: allowed_upper_jpg)

theorem upload_rejects_disallowed_witness:
  "disk_files (snd (upload_workflow_image id upload_wf
      [(''file'', \<lparr>fst_filename = ''scan.tiff'', fst_data = Bytes ''t''\<rparr>)] upload_disk)) = Map.empty
   \<and> [''books'', ''b'', ''raw''] \<in> disk_dirs (snd (upload_workflow_image id upload_wf
      [(''file'', \<lparr>fst_filename = ''scan.tiff'', fst_data = Bytes ''t''\<rparr>)] upload_disk))"
  using upload_rejects_disallowed [where secure = id and w = upload_wf
      and files = "[(''file'', \<lparr>fst_filename = ''scan.tiff'', fst_data = Bytes ''t''\<rparr>)]" and d = upload_disk
      and f = "\<lparr>fst_filename = ''scan.tiff'', fst_data = Bytes ''t''\<rparr>"
      and r = "fst (upload_workflow_image id upload_wf
                 [(''file'', \<lparr>fst_filename = ''scan.tiff'', fst_data = Bytes ''t''\<rparr>)] upload_disk)"
      and d' = "snd (upload_workflow_image id upload_wf
                 [(''file'', \<lparr>fst_filename = ''scan.tiff'', fst_data = Bytes ''t''\<rparr>)] upload_disk)"]
  by (simp add: allowed_tiff)

end
