(* ===== verification/Workflows.thy ===== *)
theory Workflows
  imports Python
begin

text \<open>
  Workflow records: \<open>create_workflow\<close>, \<open>update_workflow\<close> and \<open>delete_workflow\<close>
  (\<open>web.py\<close>, lines 87--160) over the persistence store and the disk. The store's
  operations are modelled from the spec (section 6: save returns the new id, delete
  removes it); \<open>update_workflow_config\<close> replaces the stored configuration. The
  configuration is confit's list of sources, highest priority first: \<open>config.set(v)\<close>
  adds \<open>v\<close> as the new first source and rejects a value that is not a dict with
  TypeError. A new workflow directory has no images yet. \<open>jsonify(workflow_to_dict(w))\<close>
  of \<open>util\<close> is the response \<open>RWorkflow w\<close>, keeping the conversion abstract.
\<close>

record wf_store =
  st_workflows :: "nat \<Rightarrow> workflow option"
  st_next :: nat

subsection \<open>Persistence collaborator (from the spec)\<close>

definition save_workflow :: "workflow \<Rightarrow> wf_store \<Rightarrow> nat \<times> wf_store" where
  "save_workflow w s =
     (st_next s, s\<lparr>st_workflows := (st_workflows s)(st_next s \<mapsto> w\<lparr>wf_id := st_next s\<rparr>),
                   st_next := Suc (st_next s)\<rparr>)"

definition delete_workflow_db :: "nat \<Rightarrow> wf_store \<Rightarrow> wf_store" where
  "delete_workflow_db i s = s\<lparr>st_workflows := (st_workflows s)(i := None)\<rparr>"

definition update_workflow_config :: "nat \<Rightarrow> pyval list \<Rightarrow> wf_store \<Rightarrow> wf_store" where
  "update_workflow_config i conf s =
     s\<lparr>st_workflows := (\<lambda>j. if j = i then map_option (\<lambda>w. w\<lparr>wf_config := conf\<rparr>) (st_workflows s j)
                            else st_workflows s j)\<rparr>"

subsection \<open>Python and library helpers\<close>

text \<open>\<open>d.get(k, default)\<close>: only dicts have \<open>get\<close>.\<close>

fun py_dict_get :: "pyval \<Rightarrow> string \<Rightarrow> pyval \<Rightarrow> py_exc + pyval" where
  "py_dict_get (PDict kvs) k dflt = Inr (case map_of kvs k of None \<Rightarrow> dflt | Some v \<Rightarrow> v)"
| "py_dict_get _ k dflt = Inl AttributeError"

definition int_str :: "int \<Rightarrow> string" where
  "int_str i = (if i < 0 then CHR ''-'' # nat_str (nat (- i)) else nat_str (nat i))"

text \<open>
  \<open>unicode(v)\<close> of a decoded JSON value. Strings are themselves; containers are
  rendered as Python 2's repr without escaping inside strings.
\<close>

fun py_repr :: "pyval \<Rightarrow> string" where
  "py_repr PNone = ''None''"
| "py_repr (PBool b) = (if b then ''True'' else ''False'')"
| "py_repr (PInt i) = int_str i"
| "py_repr (PStr s) = ''u'' @ [CHR 0x27] @ s @ [CHR 0x27]"
| "py_repr (PList vs) = ''['' @ str_join '', '' (map py_repr vs) @ '']''"
| "py_repr (PDict kvs) =
     ''{'' @ str_join '', '' (map (\<lambda>kv. ''u'' @ [CHR 0x27] @ fst kv @ [CHR 0x27] @ '': '' @ py_repr (snd kv)) kvs) @ ''}''"

definition py_unicode :: "pyval \<Rightarrow> string" where
  "py_unicode v = (case v of PStr s \<Rightarrow> s | _ \<Rightarrow> py_repr v)"

text \<open>
  pathlib's \<open>base / name\<close>: the name is split at slashes, empty and \<open>.\<close> parts are
  dropped, and a name that starts with a slash replaces the base (\<open>''/''\<close> is the root).
\<close>

fun split_on :: "char \<Rightarrow> string \<Rightarrow> string list" where
  "split_on c [] = [[]]"
| "split_on c (x # xs) = (if x = c then [] # split_on c xs
                          else (case split_on c xs of [] \<Rightarrow> [[x]] | w # ws \<Rightarrow> (x # w) # ws))"

definition path_parts :: "string \<Rightarrow> path" where
  "path_parts s = filter (\<lambda>p. p \<noteq> [] \<and> p \<noteq> ''.'') (split_on CHR ''/'' s)"

definition path_join :: "path \<Rightarrow> string \<Rightarrow> path" where
  "path_join base s = (if take 1 s = ''/'' then ''/'' # path_parts s else base @ path_parts s)"

text \<open>\<open>config.set(v)\<close> of confit.\<close>

definition config_set :: "pyval list \<Rightarrow> pyval \<Rightarrow> py_exc + pyval list" where
  "config_set conf v = (case v of PDict _ \<Rightarrow> Inr (v # conf) | _ \<Rightarrow> Inl TypeError)"

text \<open>\<open>shutil.rmtree(path)\<close>: every file and directory under the path is removed; a
  missing directory is an OSError, which the handler logs and ignores.\<close>

definition rmtree :: "path \<Rightarrow> disk \<Rightarrow> py_exc + disk" where
  "rmtree p d =
     (if p \<in> disk_dirs d
      then Inr \<lparr>disk_files = (\<lambda>q. if prefix p q then None else disk_files d q),
                disk_dirs = {q \<in> disk_dirs d. \<not> prefix p q}\<rparr>
      else Inl OSError)"

subsection \<open>Handlers\<close>

definition create_workflow ::
  "app_config \<Rightarrow> pyval list \<Rightarrow> pyval option \<Rightarrow> wf_store \<Rightarrow> response \<times> wf_store"
where
  "create_workflow cfg default_config body s =
     (case body of
        None \<Rightarrow> (RRaise ValueError, s)
      | Some data \<Rightarrow>
          (case py_getitem data ''name'' of
             Inl e \<Rightarrow> (RRaise e, s)
           | Inr name \<Rightarrow>
               (let path = path_join (cfg_base_path cfg) (py_unicode name) in
                case py_dict_get data ''config'' PNone of
                  Inl e \<Rightarrow> (RRaise e, s)
                | Inr user_config \<Rightarrow>
                    (case (if user_config \<noteq> PNone then config_set default_config user_config
                           else Inr default_config) of
                       Inl e \<Rightarrow> (RRaise e, s)
                     | Inr conf \<Rightarrow>
                         (case (py_dict_get data ''step'' PNone, py_dict_get data ''step_done'' PNone) of
                            (Inr st, Inr sd) \<Rightarrow>
                              (let w = \<lparr>wf_id = 0, wf_path = path, wf_images = [], wf_step = st,
                                        wf_step_done = sd, wf_config = conf\<rparr>;
                                   (wid, s') = save_workflow w s
                               in (RWorkflow (w\<lparr>wf_id := wid\<rparr>), s'))
                          | _ \<Rightarrow> (RRaise AttributeError, s))))))"

definition update_workflow :: "workflow \<Rightarrow> pyval option \<Rightarrow> wf_store \<Rightarrow> response \<times> wf_store" where
  "update_workflow w body s =
     (case body of
        None \<Rightarrow> (RRaise ValueError, s)
      | Some data \<Rightarrow>
          (case py_dict_get data ''config'' PNone of
             Inl e \<Rightarrow> (RRaise e, s)
           | Inr c \<Rightarrow>
               (case config_set (wf_config w) c of
                  Inl e \<Rightarrow> (RRaise e, s)
                | Inr conf \<Rightarrow>
                    (RWorkflow (w\<lparr>wf_config := conf\<rparr>), update_workflow_config (wf_id w) conf s))))"

text \<open>
  The PUT rule \<open>/workflow/<workflow_workflow>\<close> has no converter: Flask passes the raw
  string as the keyword \<open>workflow_workflow\<close>; the view's parameter is \<open>workflow\<close>.
\<close>

definition route_update_workflow ::
  "(string \<times> string) list \<Rightarrow> (string \<Rightarrow> workflow) \<Rightarrow> pyval option \<Rightarrow> wf_store \<Rightarrow> response \<times> wf_store"
where
  "route_update_workflow view_args convert body s =
     (case bind_view_args [''workflow''] view_args of
        Some [x] \<Rightarrow> update_workflow (convert x) body s
      | _ \<Rightarrow> (RRaise TypeError, s))"

definition update_view_args :: "string \<Rightarrow> (string \<times> string) list" where
  "update_view_args x = [(''workflow_workflow'', x)]"

definition delete_workflow :: "workflow \<Rightarrow> disk \<Rightarrow> wf_store \<Rightarrow> response \<times> disk \<times> wf_store" where
  "delete_workflow w d s =
     (let d' = (case rmtree (wf_path w) d of Inl _ \<Rightarrow> d | Inr d1 \<Rightarrow> d1)
      in (RJson (PDict []), d', delete_workflow_db (wf_id w) s))"

subsection \<open>The store invariant\<close>

definition store_inv :: "wf_store \<Rightarrow> bool" where
  "store_inv s \<longleftrightarrow> (\<forall>i w. st_workflows s i = Some w \<longrightarrow> i < st_next s \<and> wf_id w = i)"

abbreviation store0 :: wf_store where
  "store0 \<equiv> \<lparr>st_workflows = Map.empty, st_next = 1\<rparr>"

abbreviation crud_cfg :: app_config where
  "crud_cfg \<equiv> \<lparr>cfg_mode = ''full'', cfg_debug = False, cfg_postproc_server = None,
    cfg_temp_dir = [''/'', ''tmp''], cfg_base_path = [''/'', ''srv'', ''books'']\<rparr>"

subsection \<open>Lemmas\<close>

lemma save_workflow_inv:
  assumes "store_inv s" and "save_workflow w s = (i, s')"
  shows "store_inv s' \<and> i = st_next s \<and> st_workflows s' i = Some (w\<lparr>wf_id := i\<rparr>)
    \<and> (\<forall>j v. st_workflows s j = Some v \<longrightarrow> st_workflows s' j = Some v)"
  using assms by (fastforce simp: save_workflow_def store_inv_def split: if_splits)

lemma create_workflow_cases:
  assumes "create_workflow cfg dc body s = (r, s')"
  shows "(s' = s \<and> (\<exists>e. r = RRaise e)) \<or> (\<exists>w. save_workflow (w\<lparr>wf_id := 0\<rparr>) s = (wf_id w, s') \<and> r = RWorkflow w)"
  using assms
  by (auto simp: create_workflow_def Let_def save_workflow_def
      split: option.splits sum.splits if_splits prod.splits)

lemma path_join_absolute: "take 1 n = ''/'' \<Longrightarrow> path_join base n = ''/'' # path_parts n"
  by (simp add: path_join_def)

lemma create_workflow_inv:
  assumes "store_inv s"
  shows "store_inv (snd (create_workflow cfg dc body s))"
proof -
  obtain r s' where run: "create_workflow cfg dc body s = (r, s')" by fastforce
  from create_workflow_cases [OF run] assms save_workflow_inv [OF assms]
  show ?thesis using run by auto
qed

subsection \<open>Properties of the workflow endpoints\<close>

text \<open>
  C33. Creating a workflow keeps the store consistent (every stored workflow carries its
  key as id, and keys are below the next id), never overwrites a stored workflow, and a
  created workflow is stored under the fresh id it is answered with.
\<close>

theorem create_workflow_store:
  assumes "store_inv s" and "create_workflow cfg dc body s = (r, s')"
  shows "store_inv s' \<and> (\<forall>i w. st_workflows s i = Some w \<longrightarrow> st_workflows s' i = Some w)
    \<and> (\<forall>w. r = RWorkflow w \<longrightarrow> wf_id w = st_next s \<and> st_workflows s' (wf_id w) = Some w)"
proof (cases "s' = s \<and> (\<exists>e. r = RRaise e)")
  case True
  with assms show ?thesis by auto
next
  case False
  with create_workflow_cases [OF assms(2)] obtain w where
    sv: "save_workflow (w\<lparr>wf_id := 0\<rparr>) s = (wf_id w, s')" and r: "r = RWorkflow w" by blast
  from save_workflow_inv [OF assms(1) sv] show ?thesis using r by auto
qed

text \<open>
  C34. A name that starts with a slash is not placed under \<open>base_path\<close>: pathlib's
  join makes it an absolute path, and the workflow is created there.
\<close>

theorem create_workflow_absolute_name:
  assumes "take 1 n = ''/''"
  shows "fst (create_workflow cfg dc (Some (PDict [(''name'', PStr n)])) s)
    = RWorkflow \<lparr>wf_id = st_next s, wf_path = ''/'' # path_parts n, wf_images = [],
                 wf_step = PNone, wf_step_done = PNone, wf_config = dc\<rparr>"
  using assms
  by (simp add: create_workflow_def Let_def save_workflow_def py_unicode_def path_join_absolute)

text \<open>
  C35. \<open>PUT /workflow/<x>\<close> never updates anything: the rule's variable is passed as
  the keyword \<open>workflow_workflow\<close>, the view only accepts \<open>workflow\<close>, so the call
  raises TypeError (HTTP 500) and the store is unchanged.
\<close>

theorem route_update_workflow_always_fails:
  "route_update_workflow (update_view_args x) convert body s = (RRaise TypeError, s)"
  by (simp add: route_update_workflow_def update_view_args_def bind_view_args_def)

text \<open>
  C36. Deleting a workflow removes its record and, when its directory exists, every file
  below it; a missing directory is ignored and the record is removed all the same. No
  other record and no file elsewhere is touched.
\<close>

theorem delete_workflow_effect:
  assumes "delete_workflow w d s = (r, d', s')"
  shows "r = RJson (PDict []) \<and> st_workflows s' (wf_id w) = None
    \<and> (\<forall>i. i \<noteq> wf_id w \<longrightarrow> st_workflows s' i = st_workflows s i)
    \<and> (\<forall>p. disk_files d' p = (if wf_path w \<in> disk_dirs d \<and> prefix (wf_path w) p then None else disk_files d p))"
  using assms by (auto simp: delete_workflow_def rmtree_def delete_workflow_db_def)

text \<open>
  Every workflow endpoint that writes the store (create, update, delete) preserves the
  store invariant.
\<close>

lemma store_inv_preserved:
  assumes "store_inv s"
  shows "store_inv (snd (create_workflow cfg dc body s)) \<and> store_inv (snd (update_workflow w body s))
    \<and> store_inv (snd (snd (delete_workflow w d s)))"
proof (intro conjI)
  show "store_inv (snd (create_workflow cfg dc body s))" using create_workflow_inv [OF assms] .
  show "store_inv (snd (update_workflow w body s))"
    using assms by (auto simp: update_workflow_def update_workflow_config_def store_inv_def
        split: option.splits sum.splits)
  show "store_inv (snd (snd (delete_workflow w d s)))"
    using assms by (simp add: delete_workflow_def delete_workflow_db_def store_inv_def Let_def)
qed

subsection \<open>Concrete runs\<close>

theorem create_workflow_store_witness:
  "st_workflows (snd (create_workflow crud_cfg [] (Some (PDict [(''name'', PStr ''book'')])) store0)) 1
   = Some \<lparr>wf_id = 1, wf_path = [''/'', ''srv'', ''books'', ''book''], wf_images = [],
           wf_step = PNone, wf_step_done = PNone, wf_config = []\<rparr>"
proof -
  have inv: "store_inv store0" by (simp add: store_inv_def)
  have run: "create_workflow crud_cfg [] (Some (PDict [(''name'', PStr ''book'')])) store0
    = (RWorkflow \<lparr>wf_id = 1, wf_path = [''/'', ''srv'', ''books'', ''book''], wf_images = [],
           wf_step = PNone, wf_step_done = PNone, wf_config = []\<rparr>,
       snd (create_workflow crud_cfg [] (Some (PDict [(''name'', PStr ''book'')])) store0))"
    by (simp add: create_workflow_def Let_def save_workflow_def py_unicode_def path_join_def
        path_parts_def)
  from create_workflow_store [OF inv run] show ?thesis by simp
qed

theorem create_workflow_absolute_name_witness:
  "fst (create_workflow crud_cfg [] (Some (PDict [(''name'', PStr ''/etc'')])) store0)
    = RWorkflow \<lparr>wf_id = 1, wf_path = [''/'', ''etc''], wf_images = [],
                 wf_step = PNone, wf_step_done = PNone, wf_config = []\<rparr>"
  using create_workflow_absolute_name [where n = "''/etc''" and cfg = crud_cfg and dc = "[]" and s = store0]
  by (simp add: path_parts_def)

theorem delete_workflow_effect_witness:
  "fst (snd (delete_workflow \<lparr>wf_id = 1, wf_path = [''/'', ''srv'', ''b''], wf_images = [],
        wf_step = PNone, wf_step_done = PNone, wf_config = []\<rparr>
      \<lparr>disk_files = [[''/'', ''srv'', ''b'', ''raw'', ''0.jpg''] \<mapsto> Bytes ''x'', [''/'', ''srv'', ''c''] \<mapsto> Bytes ''y''],
       disk_dirs = {[''/''], [''/'', ''srv''], [''/'', ''srv'', ''b'']}\<rparr> store0))
   = \<lparr>disk_files = [[''/'', ''srv'', ''c''] \<mapsto> Bytes ''y''], disk_dirs = {[''/''], [''/'', ''srv'']}\<rparr>"
proof -
  let ?w = "\<lparr>wf_id = 1, wf_path = [''/'', ''srv'', ''b''], wf_images = [],
        wf_step = PNone, wf_step_done = PNone, wf_config = []\<rparr> :: workflow"
  let ?d = "\<lparr>disk_files = [[''/'', ''srv'', ''b'', ''raw'', ''0.jpg''] \<mapsto> Bytes ''x'', [''/'', ''srv'', ''c''] \<mapsto> Bytes ''y''],
       disk_dirs = {[''/''], [''/'', ''srv''], [''/'', ''srv'', ''b'']}\<rparr>"
  obtain r d' s' where run: "delete_workflow ?w ?d store0 = (r, d', s')" by (metis prod_cases3)
  from delete_workflow_effect [OF run] have files:
    "\<forall>p. disk_files d' p = (if [''/'', ''srv'', ''b''] \<in> disk_dirs ?d \<and> prefix [''/'', ''srv'', ''b''] p
                               then None else disk_files ?d p)" by simp
  have "disk_files d' = [[''/'', ''srv'', ''c''] \<mapsto> Bytes ''y'']"
    using files by (auto simp: fun_eq_iff)
  moreover have "disk_dirs d' = {[''/''], [''/'', ''srv'']}"
    using run by (auto simp: delete_workflow_def rmtree_def)
  ultimately show ?thesis using run by simp
qed

end
