(* ===== verification/Plugins.thy ===== *)
theory Plugins
  imports Python "HOL-Library.AList"
begin

text \<open>
  Plugin option listing: \<open>get_plugins_with_options\<close> (\<open>web.py\<close>, lines 41--75). The
  plugin manager is the parameter \<open>relevant\<close>: for a list of hook names,
  \<open>get_relevant_extensions\<close> gives the extensions implementing them, each as its name
  and its plugin's \<open>configuration_template()\<close> (possibly \<open>None\<close>); \<open>driver_tpl\<close> is the
  configured driver's template. Dicts are association lists updated with
  \<open>AList.update\<close> (a later key replaces an earlier one, as in a dict comprehension).
\<close>

record option_tpl =
  opt_value :: pyval
  opt_docstring :: string
  opt_selectable :: bool

type_synonym template = "(string \<times> option_tpl) list option"

definition scanner_extensions :: "string list" where
  "scanner_extensions = [''prepare_capture'', ''capture'', ''finish_capture'']"

definition processor_extensions :: "string list" where
  "processor_extensions = [''process'', ''output'']"

definition dict_of :: "(string \<times> 'v) list \<Rightarrow> (string \<times> 'v) list" where
  "dict_of kvs = fold (\<lambda>(k, v) d. AList.update k v d) kvs []"

text \<open>The \<open>if/elif\<close> chain on the mode; no branch binds \<open>templates\<close> for any other mode.\<close>

definition plugin_templates ::
  "string \<Rightarrow> (string list \<Rightarrow> (string \<times> template) list) \<Rightarrow> template \<Rightarrow> py_exc + (string \<times> template) list"
where
  "plugin_templates mode relevant driver_tpl =
     (if mode = ''scanner'' then Inr (AList.update ''device'' driver_tpl (dict_of (relevant scanner_extensions)))
      else if mode = ''processor'' then Inr (dict_of (relevant processor_extensions))
      else if mode = ''full'' then
        Inr (AList.update ''device'' driver_tpl (dict_of (relevant (scanner_extensions @ processor_extensions))))
      else Inl UnboundLocalError)"

definition render_options :: "(string \<times> option_tpl) list \<Rightarrow> pyval" where
  "render_options opts =
     PDict (dict_of (map (\<lambda>(key, opt). (key, PDict [(''value'', opt_value opt),
        (''docstring'', PStr (opt_docstring opt)), (''selectable'', PBool (opt_selectable opt))])) opts))"

fun render_templates :: "(string \<times> template) list \<Rightarrow> (string \<times> pyval) list" where
  "render_templates [] = []"
| "render_templates ((name, None) # ts) = render_templates ts"
| "render_templates ((name, Some opts) # ts) = (name, render_options opts) # render_templates ts"

definition get_plugins_with_options ::
  "app_config \<Rightarrow> (string list \<Rightarrow> (string \<times> template) list) \<Rightarrow> template \<Rightarrow> response"
where
  "get_plugins_with_options cfg relevant driver_tpl =
     (case plugin_templates (cfg_mode cfg) relevant driver_tpl of
        Inl e \<Rightarrow> RRaise e
      | Inr templates \<Rightarrow> RJson (PDict (dict_of (render_templates templates))))"

abbreviation plugin_cfg :: "string \<Rightarrow> app_config" where
  "plugin_cfg m \<equiv> \<lparr>cfg_mode = m, cfg_debug = False, cfg_postproc_server = None,
    cfg_temp_dir = [''tmp''], cfg_base_path = [''books'']\<rparr>"

subsection \<open>Lemmas\<close>

lemma map_of_render_templates:
  "distinct (map fst ts) \<Longrightarrow>
   map_of (render_templates ts) k = (case map_of ts k of Some (Some opts) \<Rightarrow> Some (render_options opts) | _ \<Rightarrow> None)"
  by (induction ts rule: render_templates.induct) (auto split: option.splits simp: image_iff)

lemma distinct_dict_of: "distinct (map fst (dict_of kvs))"
proof -
  have "\<And>d. distinct (map fst d) \<Longrightarrow> distinct (map fst (fold (\<lambda>(k, v) d. AList.update k v d) kvs d))"
    by (induction kvs) (auto simp: distinct_update)
  then show ?thesis by (simp add: dict_of_def)
qed

lemma map_of_fold_update:
  "map_of (fold (\<lambda>(k, v) d. AList.update k v d) kvs d) = map_of d ++ map_of (rev kvs)"
  by (induction kvs arbitrary: d) (auto simp: update_conv' map_add_def fun_eq_iff split: option.splits)

lemma map_of_rev_distinct: "distinct (map fst xs) \<Longrightarrow> map_of (rev xs) = map_of xs"
proof (induction xs)
  case (Cons kv xs)
  then have "map_of xs (fst kv) = None" by (simp add: map_of_eq_None_iff)
  with Cons show ?case by (auto simp: fun_eq_iff map_add_def split: option.splits)
qed simp

lemma map_of_dict_of: "map_of (dict_of kvs) = map_of (rev kvs)"
  by (simp add: dict_of_def map_of_fold_update)

lemma distinct_render_templates: "distinct (map fst ts) \<Longrightarrow> distinct (map fst (render_templates ts))"
proof (induction ts rule: render_templates.induct)
  case (3 name opts ts)
  have "set (map fst (render_templates ts)) \<subseteq> set (map fst ts)"
    by (induction ts rule: render_templates.induct) auto
  with 3 show ?case by auto
qed auto

subsection \<open>Properties of the plugin listing\<close>

text \<open>
  C37. For a mode other than scanner, processor and full, no branch of the \<open>if/elif\<close>
  chain assigns \<open>templates\<close>, and the request fails with UnboundLocalError (HTTP 500).
\<close>

theorem plugins_unknown_mode:
  assumes "cfg_mode cfg \<notin> {''scanner'', ''processor'', ''full''}"
  shows "get_plugins_with_options cfg relevant driver_tpl = RRaise UnboundLocalError"
  using assms by (simp add: get_plugins_with_options_def plugin_templates_def)

text \<open>
  C38. In scanner and full mode the listing's \<open>device\<close> entry is the driver's
  template, rendered, whatever a plugin of that name contributed, and it is absent when
  the driver has no template.
\<close>

theorem plugins_device_entry:
  assumes "cfg_mode cfg \<in> {''scanner'', ''full''}"
    and "get_plugins_with_options cfg relevant driver_tpl = RJson (PDict rv)"
  shows "map_of rv ''device'' = map_option render_options driver_tpl"
proof -
  obtain base where t: "plugin_templates (cfg_mode cfg) relevant driver_tpl
      = Inr (AList.update ''device'' driver_tpl (dict_of base))"
    using assms(1) by (auto simp: plugin_templates_def)
  let ?T = "AList.update ''device'' driver_tpl (dict_of base)"
  have rv: "rv = dict_of (render_templates ?T)"
    using assms(2) t by (simp add: get_plugins_with_options_def)
  have dT: "distinct (map fst ?T)" by (simp add: distinct_update distinct_dict_of)
  have "map_of rv ''device'' = map_of (render_templates ?T) ''device''"
    using rv map_of_rev_distinct [OF distinct_render_templates [OF dT]] by (simp add: map_of_dict_of)
  also have "\<dots> = map_option render_options driver_tpl"
    using map_of_render_templates [OF dT] by (simp add: update_conv' split: option.splits)
  finally show ?thesis .
qed

subsection \<open>Concrete runs\<close>

theorem plugins_unknown_mode_witness:
  "get_plugins_with_options (plugin_cfg ''postprocessor'') (\<lambda>hooks. []) None = RRaise UnboundLocalError"
  using plugins_unknown_mode [where cfg = "plugin_cfg ''postprocessor''" and relevant = "\<lambda>hooks. []"
      and driver_tpl = None] by simp

theorem plugins_device_entry_witness:
  "map_of (case get_plugins_with_options (plugin_cfg ''scanner'')
              (\<lambda>hooks. [(''device'', Some []), (''tesseract'', None)])
              (Some [(''iso'', \<lparr>opt_value = PInt 100, opt_docstring = ''ISO'', opt_selectable = False\<rparr>)])
            of RJson (PDict rv) \<Rightarrow> rv | _ \<Rightarrow> []) ''device''
   = Some (render_options [(''iso'', \<lparr>opt_value = PInt 100, opt_docstring = ''ISO'', opt_selectable = False\<rparr>)])"
proof -
  let ?rel = "\<lambda>hooks::string list. [(''device'', Some []), (''tesseract'', None :: template)]"
  let ?drv = "Some [(''iso'', \<lparr>opt_value = PInt 100, opt_docstring = ''ISO'', opt_selectable = False\<rparr>)]"
  obtain rv where run: "get_plugins_with_options (plugin_cfg ''scanner'') ?rel ?drv = RJson (PDict rv)"
    by (simp add: get_plugins_with_options_def plugin_templates_def)
  from plugins_device_entry [OF _ run] have "map_of rv ''device'' = map_option render_options ?drv"
    by simp
  with run show ?thesis by simp
qed

end
