(* ===== verification/Download.thy ===== *)
theory Download
  imports Python
begin

text \<open>
  Workflow download: \<open>download_workflow\<close> (\<open>web.py\<close>, lines 195--218). The handler removes
  a previous archive in the system temp directory, writes a ZIP file with every file and
  directory below the workflow path (each under the workflow's stem and its path relative
  to the workflow) and the dumped configuration, and sends it as an attachment. The temp
  directory (\<open>tempfile.gettempdir()\<close>) is the parameter \<open>tmp\<close>, confit's
  \<open>config.dump()\<close> the parameter \<open>dump\<close>, and the paths \<open>workflow.path.glob('**/*')\<close>
  yields, in the order the directory walk gives them, the parameter \<open>listing\<close>; what
  pathlib promises of it is \<open>glob_all\<close>. A ZIP file is the blob \<open>Archive\<close>, its entries in
  write order.
\<close>

definition download_zip_path :: "path \<Rightarrow> path" where
  "download_zip_path tmp = tmp @ [''spreads_download.zip'']"

text \<open>
  \<open>if tmp_path.exists:\<close> tests the bound method \<open>exists\<close>, not its result; a method
  object is always true.
\<close>

definition py_method_truthy :: bool where
  "py_method_truthy = True"

text \<open>\<open>Path.unlink()\<close>: OSError when there is no such file.\<close>

definition unlink :: "path \<Rightarrow> disk \<Rightarrow> py_exc + disk" where
  "unlink p d =
     (case disk_files d p of
        None \<Rightarrow> Inl OSError
      | Some _ \<Rightarrow> Inr (d\<lparr>disk_files := (disk_files d)(p := None)\<rparr>))"

text \<open>\<open>unicode(fpath.relative_to(workflow.path))\<close>: the remaining parts joined by slashes.\<close>

definition rel_name :: "path \<Rightarrow> path \<Rightarrow> string" where
  "rel_name base q = str_join ''/'' (drop (length base) q)"

text \<open>
  \<open>archive.write(unicode(fpath), extract_path)\<close>: a file is stored with its content; for a
  directory zipfile appends a slash to the name and stores no content.
\<close>

definition archive_entry :: "path \<Rightarrow> disk \<Rightarrow> path \<Rightarrow> string \<times> blob option" where
  "archive_entry base d q =
     (let nm = path_stem base @ ''/'' @ rel_name base q in
      case disk_files d q of
        Some b \<Rightarrow> (nm, Some b)
      | None \<Rightarrow> (nm @ ''/'', None))"

definition download_workflow ::
  "path \<Rightarrow> (pyval list \<Rightarrow> string) \<Rightarrow> workflow \<Rightarrow> path list \<Rightarrow> disk \<Rightarrow> response \<times> disk"
where
  "download_workflow tmp dump w listing d =
     (let tmp_path = download_zip_path tmp in
      case (if py_method_truthy then unlink tmp_path d else Inr d) of
        Inl e \<Rightarrow> (RRaise e, d)
      | Inr d1 \<Rightarrow>
          (let stem = path_stem (wf_path w);
               entries = map (archive_entry (wf_path w) d1) listing
                         @ [(stem @ ''/config.yaml'', Some (Bytes (dump (wf_config w))))];
               zipf = Archive entries
           in (RAttachment tmp_path zipf (stem @ ''.zip''),
               d1\<lparr>disk_files := (disk_files d1)(tmp_path \<mapsto> zipf)\<rparr>)))"



text \<open>Data for the concrete runs.\<close>

abbreviation dl_wf :: workflow where
  "dl_wf \<equiv> \<lparr>wf_id = 2, wf_path = [''books'', ''scan''], wf_images = [[''books'', ''scan'', ''raw'', ''0.jpg'']],
    wf_step = PNone, wf_step_done = PNone, wf_config = []\<rparr>"

abbreviation dl_disk :: disk where
  "dl_disk \<equiv> \<lparr>disk_files = [[''books'', ''scan'', ''raw'', ''0.jpg''] \<mapsto> Bytes ''a'',
                             [''tmp'', ''spreads_download.zip''] \<mapsto> Bytes ''old''],
              disk_dirs = {[''books''], [''books'', ''scan''], [''books'', ''scan'', ''raw''], [''tmp'']}\<rparr>"


subsection \<open>Lemmas\<close>





subsection \<open>Properties of the download\<close>


subsection \<open>Concrete runs\<close>









text \<open>A file named \<open>config.yaml\<close> at the top of the workflow and the dumped
  configuration are written under the same archive name.\<close>

lemma download_config_name_collision:
  "case fst (download_workflow [''tmp''] (\<lambda>c. ''{}'') (dl_wf\<lparr>wf_images := []\<rparr>)
        [[''books'', ''scan'', ''config.yaml'']]
        (dl_disk\<lparr>disk_files := [[''books'', ''scan'', ''config.yaml''] \<mapsto> Bytes ''x'',
                                 [''tmp'', ''spreads_download.zip''] \<mapsto> Bytes ''old'']\<rparr>)) of
     RAttachment _ (Archive es) _ \<Rightarrow> map fst es = [''scan/config.yaml'', ''scan/config.yaml'']
   | _ \<Rightarrow> False"
  by (simp add: download_workflow_def py_method_truthy_def unlink_def download_zip_path_def
      archive_entry_def rel_name_def path_stem_def path_name_def name_stem_def rfind_def Let_def)

end
