(* ===== verification/Views.thy ===== *)
theory Views
  imports Workflows
begin

text \<open>
  The read-only endpoints: \<open>index\<close> (\<open>web.py\<close>, lines 34--37), \<open>get_global_config\<close>
  (lines 78--82), \<open>list_workflows\<close> (lines 113--120) and \<open>get_workflow\<close> (lines
  123--126). The global configuration is confit's list of sources, highest priority first,
  and its \<open>flatten()\<close> is \<open>flatten_view\<close>: for each key of any source, in order of first
  appearance, the flattened view of the values the sources hold at that key when they are
  all dicts, and the first value otherwise. \<open>persistence.get_all_workflows()\<close> returns the
  stored workflows in id order.
\<close>

definition index :: "app_config \<Rightarrow> response" where
  "index cfg = RTemplate ''index.html'' [(''debug'', PBool (cfg_debug cfg))]"

subsection \<open>confit's flatten (from the spec)\<close>

fun is_pdict :: "pyval \<Rightarrow> bool" where
  "is_pdict (PDict _) = True"
| "is_pdict _ = False"

fun dict_keys :: "pyval \<Rightarrow> string list" where
  "dict_keys (PDict kvs) = map fst kvs"
| "dict_keys _ = []"

text \<open>\<open>ConfigView.keys()\<close>: the keys of all sources, each once, in order of first appearance.\<close>

definition keys_union :: "pyval list \<Rightarrow> string list" where
  "keys_union vs = fold (\<lambda>k ks. if k \<in> set ks then ks else ks @ [k]) (concat (map dict_keys vs)) []"

text \<open>\<open>view[k].resolve()\<close>: the values the sources hold at \<open>k\<close>, highest priority first.\<close>

definition values_at :: "string \<Rightarrow> pyval list \<Rightarrow> pyval list" where
  "values_at k vs = List.map_filter (\<lambda>v. case v of PDict kvs \<Rightarrow> map_of kvs k | _ \<Rightarrow> None) vs"

lemma size_map_of_le: "map_of kvs k = Some v \<Longrightarrow> size v \<le> size_list (size_prod (\<lambda>x. 0) size) kvs"
proof (induction kvs)
  case (Cons p kvs)
  then show ?case by (cases p) (auto split: if_splits)
qed simp

lemma size_map_of_less: "map_of kvs k = Some v \<Longrightarrow> size v < size (PDict kvs)"
  using size_map_of_le [of kvs k v] by simp

lemma values_at_size:
  assumes "list_all is_pdict vs"
  shows "sum_list (map size (values_at k vs)) + length vs \<le> sum_list (map size vs)"
  using assms
proof (induction vs)
  case (Cons v vs)
  then obtain kvs where v: "v = PDict kvs" by (cases v) auto
  have IH: "sum_list (map size (values_at k vs)) + length vs \<le> sum_list (map size vs)"
    using Cons by simp
  show ?case
  proof (cases "map_of kvs k")
    case None
    then show ?thesis using IH v by (simp add: values_at_def List.map_filter_def)
  next
    case (Some x)
    then have "size x < size (PDict kvs)" by (rule size_map_of_less)
    then show ?thesis using IH v Some by (simp add: values_at_def List.map_filter_def)
  qed
qed (simp add: values_at_def List.map_filter_def)

lemma keys_union_Nil: "keys_union [] = []"
  by (simp add: keys_union_def)

function flatten_view :: "pyval list \<Rightarrow> pyval" where
  "flatten_view vs =
     (if list_all is_pdict vs
      then PDict (map (\<lambda>k. (k, flatten_view (values_at k vs))) (keys_union vs))
      else hd vs)"
  by pat_completeness auto
termination
proof (relation "measure (\<lambda>vs. sum_list (map size vs))")
  fix vs k
  assume d: "list_all is_pdict vs" and k: "k \<in> set (keys_union vs)"
  then have "0 < length vs" by (cases vs) (auto simp: keys_union_Nil)
  with values_at_size [OF d, of k]
  show "(values_at k vs, vs) \<in> measure (\<lambda>vs. sum_list (map size vs))"
    unfolding in_measure by linarith
qed simp

declare flatten_view.simps [simp del]

definition get_global_config :: "pyval list \<Rightarrow> response" where
  "get_global_config default_config = RJson (flatten_view default_config)"

subsection \<open>Listing and reading workflows\<close>




subsection \<open>Sequences of workflow requests\<close>





subsection \<open>Lemmas\<close>

lemma map_of_keyed: "map_of (map (\<lambda>k. (k, f k)) ks) k = (if k \<in> set ks then Some (f k) else None)"
  by (induction ks) auto

lemma set_fold_add_keys:
  "set (fold (\<lambda>k ks. if k \<in> set ks then ks else ks @ [k]) xs acc) = set acc \<union> set xs"
  by (induction xs arbitrary: acc) auto

lemma set_keys_union: "set (keys_union vs) = (\<Union>v\<in>set vs. set (dict_keys v))"
  by (simp add: keys_union_def set_fold_add_keys)



lemma flatten_view_dicts:
  "list_all is_pdict vs \<Longrightarrow>
   flatten_view vs = PDict (map (\<lambda>k. (k, flatten_view (values_at k vs))) (keys_union vs))"
  by (simp add: flatten_view.simps)

lemma flatten_view_first: "\<not> is_pdict v \<Longrightarrow> flatten_view (v # vs) = v"
  by (simp add: flatten_view.simps)

text \<open>
  The layering \<open>config.set\<close> relies on: a plain value of the newest source is the value
  the flattened configuration shows at its key, whatever older sources hold there.
\<close>

lemma flatten_view_override:
  assumes "list_all is_pdict srcs" and "map_of new k = Some v" and "\<not> is_pdict v"
  shows "\<exists>kvs. flatten_view (PDict new # srcs) = PDict kvs \<and> map_of kvs k = Some v"
proof -
  have k: "k \<in> set (keys_union (PDict new # srcs))"
    using assms(2) by (auto simp: set_keys_union dest: map_of_SomeD intro: rev_image_eqI)
  have "values_at k (PDict new # srcs) = v # values_at k srcs"
    using assms(2) by (simp add: values_at_def List.map_filter_def)
  then have "flatten_view (values_at k (PDict new # srcs)) = v" using assms(3) by (simp add: flatten_view_first)
  then show ?thesis
    using flatten_view_dicts [of "PDict new # srcs"] assms(1) k by (simp add: map_of_keyed)
qed

lemma get_global_config_layers:
  "get_global_config [PDict [(''device'', PDict [(''iso'', PInt 200)])],
                      PDict [(''device'', PDict [(''iso'', PInt 100), (''zoom'', PInt 3)]), (''name'', PStr ''scanner'')]]
   = RJson (PDict [(''device'', PDict [(''iso'', PInt 200), (''zoom'', PInt 3)]), (''name'', PStr ''scanner'')])"
  by (simp add: get_global_config_def flatten_view.simps keys_union_def values_at_def List.map_filter_def)







subsection \<open>Properties of the configuration endpoint\<close>


subsection \<open>Properties of the workflow endpoints in sequence\<close>


subsection \<open>Concrete runs\<close>



end
