(* ===== verification/Handoff.thy ===== *)
theory Handoff
  imports Submit Queue
begin



subsection \<open>Lemmas\<close>

lemma upload_url_ne_queue [simp]: "server @ ''/workflow/'' @ rid @ ''/image'' \<noteq> server @ ''/queue''"
  by simp




subsection \<open>The hand-off to an instance of the program\<close>


subsection \<open>Concrete runs\<close>


end
