(* ===== verification/Spec2Isabelle.thy ===== *)
theory Spec2Isabelle
  imports Poller Queue Submit Thumbnail Capture Upload Workflows Plugins Download Views Handoff
begin

text \<open>
  \<^bold>\<open>Verification of the spreads web API\<close> (\<open>src/spreadsplug/web/web.py\<close>).

  \<^bold>\<open>The program.\<close> One Flask module exposes a scanning workstation over HTTP. Its core is
  a hand-off pipeline: capture requests mutate a workflow (image list, step, step-done
  flag); a long-poll endpoint lets a client wait until that state changes; a scanner-mode
  instance submits a finished workflow to a postprocessing instance by creating a remote
  workflow, uploading every image and enqueueing the remote id in the remote's job queue;
  a thumbnail endpoint caches previews on disk. Persistence (\<open>persistence.py\<close>), the
  workflow class (\<open>spreads.workflow\<close>), \<open>util\<close> and the libraries are outside
  \<open>src/\<close>; the handlers call them.

  \<^bold>\<open>Library layout.\<close>
  \<^item> \<open>Prelude\<close>: named collections (\<open>model_defs\<close>, \<open>py_simps\<close>), the \<open>path\<close> type,
    generic lemmas: unique split at a separator, least index of an event.
  \<^item> \<open>Python\<close>: the runtime the handlers rely on, as data: \<open>pyval\<close> (JSON-like Python
    values), \<open>py_exc\<close> (exceptions), \<open>response\<close> (what a view produces: a body,
    \<open>abort(code)\<close>, \<open>None\<close>, an exception) with \<open>flask_status\<close> (the HTTP status Flask
    sends), \<open>bind_view_args\<close> (Flask's keyword call of a view), \<open>send_file\<close> over a
    filesystem map, \<open>nat_str\<close> (\<open>str(n)\<close>, with its parse-back roundtrip),
    \<open>rfind\<close>/\<open>name_stem\<close>/\<open>path_stem\<close> (pathlib), and the records \<open>app_config\<close>
    (the \<open>app.config\<close> keys read) and \<open>workflow\<close> (the Workflow attributes read).
  \<^item> \<open>Poller\<close>: \<open>poll_for_updates\<close> (lines 163--192). The loop is a
    \<open>partial_function (option)\<close> over a sequence \<open>obs\<close> of workflow observations (one per
    read the loop makes; any interleaving of writers is such a sequence) and a clock
    \<open>clk\<close> (elapsed ms per iteration); \<open>None\<close> is a request that never returns.
    Lemmas: the exact characterisation of the result (first stopping iteration), no false
    wakeup, termination within 1100 iterations in debug mode (each iteration sleeps
    100 ms, the ceiling is 110 s, so the clock hypothesis \<open>clk i + 100 \<le> clk (i+1)\<close> is
    what the code's \<open>time.sleep(0.1)\<close> guarantees), timeout only at the ceiling, detection
    at a comparison read, and two behaviours the spec excludes: a change landing between
    the comparison and the baseline refresh is lost, and outside debug mode there is no
    ceiling.
  \<^item> \<open>Queue\<close>: \<open>add_to_queue\<close>, \<open>list_jobs\<close>, \<open>remove_from_queue\<close> (lines 270--292)
    over a list queue; the persistence calls from the spec (0-based positions). The
    DELETE route is modelled with Flask's keyword binding (\<open>route_remove_from_queue\<close>).
    Concurrent add requests are the step relation \<open>queue_step\<close> with reachable states
    \<open>queue_reach\<close>; the invariant \<open>queue_inv\<close> is proved by rule induction.
  \<^item> \<open>Submit\<close>: \<open>submit_workflow\<close> (lines 223--264) over an abstract transport
    \<open>'r transport\<close> (remote state in, outcome and next state out), returning the response,
    the requests sent in order, and the remote state. The abstract protocol
    \<open>protocol_requests\<close> is what the handler refines (prefix property).
  \<^item> \<open>Thumbnail\<close>: \<open>get_workflow_image\<close> and \<open>get_workflow_image_thumb\<close> (lines
    317--345) over a filesystem map; key roundtrip, idempotence, staleness, frame, bounds,
    and the equivalence of the integer height \<open>300 * h div w\<close> with the source's
    expression evaluated on the reals (\<open>thumb_height_real\<close>, over \<open>Complex_Main\<close>).
  \<^item> \<open>Capture\<close>: \<open>trigger_capture\<close> and \<open>finish_capture\<close> (lines 351--378). The
    Workflow methods are the interface record \<open>wf_ops\<close>; what a lemma needs of them
    (\<open>prepare_enters_capture\<close>, \<open>capture_keeps_step\<close>) is a hypothesis, and
    \<open>demo_ops\<close> is an instance that discharges them. \<open>capture_run\<close> is a sequence of
    capture requests: the mode guard, and preparation at most once.
  \<^item> \<open>Upload\<close>: \<open>upload_workflow_image\<close> (lines 298--314) over the \<open>disk\<close> record
    (files and directories): an allowed file is stored under \<open>raw\<close>, a rejected one is
    a 500 with the directory created anyway.
  \<^item> \<open>Workflows\<close>: \<open>create_workflow\<close>, \<open>update_workflow\<close> (with its PUT route
    binding) and \<open>delete_workflow\<close> (lines 87--160) over a store record
    \<open>wf_store\<close> (the persistence calls, from the spec) and the disk, with the store
    invariant \<open>store_inv\<close>, pathlib's join (an absolute name escapes the base path) and
    \<open>rmtree\<close>.
  \<^item> \<open>Plugins\<close>: \<open>get_plugins_with_options\<close> (lines 41--75), the plugin manager and
    the driver template as parameters, dicts as association lists (\<open>AList.update\<close>).
  \<^item> \<open>Download\<close>: \<open>download_workflow\<close> (lines 195--218) over the disk record. The
    ZIP file is the blob \<open>Archive\<close> (entries in write order), the directory walk of
    \<open>glob('**/*')\<close> a parameter constrained by \<open>glob_all\<close>. The archive is a roundtrip
    of the workflow directory (every file reads back under \<open><stem>/<relative path>\<close>);
    the existence test \<open>tmp_path.exists\<close> is never called, so without an earlier archive
    the handler fails.
  \<^item> \<open>Views\<close>: \<open>index\<close>, \<open>get_global_config\<close> over confit's \<open>flatten\<close>
    (\<open>flatten_view\<close>, a \<open>function\<close> terminating by the size of the sources),
    \<open>list_workflows\<close> and \<open>get_workflow\<close>, the id converter \<open>find_workflow\<close> (from the
    spec), and \<open>serve_requests\<close>, a sequence of workflow requests against the store and
    the disk: the store invariant holds over every sequence and every listing is exact.
    The configuration endpoint always answers well-formed JSON (\<open>py_wf\<close> of
    \<open>Python\<close>: distinct keys at every level).
  \<^item> \<open>Handoff\<close>: \<open>submit_workflow\<close> run against a postprocessing instance of the
    program (\<open>remote_instance\<close>), whose queue endpoint is \<open>add_to_queue\<close> and whose
    answers Flask builds with \<open>flask_status\<close> (\<open>flask_reply\<close>): the hand-off appends the
    remote id to the remote queue exactly once, after every upload.
  \<^item> This theory: the capture--poll interaction (a capture wakes a waiting poller).

  \<^bold>\<open>Approximations.\<close> The three field reads of a snapshot are one observation (the spec
  tolerates torn reads; the loop re-reads). The thumbnail height is computed on exact
  arithmetic, not IEEE doubles: where \<open>300 h / w\<close> is an integer, Python's double
  rounding can give one less (1000 by 1560 gives 467, not 468), which the model does not
  reproduce. \<open>resp.json\<close> is read as a property (the requests API the code
  is written against). The encoding of \<open>files=\<close> by requests is not modelled: the
  transport receives the request as the code builds it.

  \<^bold>\<open>Not modelled.\<close> The \<open>@cached\<close> decorator of \<open>util\<close> (outside \<open>src/\<close>;
  its order above \<open>@app.route\<close> means the registered view is the uncached one),
  \<open>workflow_to_dict\<close> (kept abstract as the responses \<open>RWorkflow\<close> and
  \<open>RWorkflowList\<close>), the Jinja template \<open>index.html\<close>, and the byte encoding of JSON,
  YAML and ZIP files (responses and archives are kept as values). Every handler of
  \<open>web.py\<close> is modelled.
\<close>

section \<open>Across components: capture and long poll\<close>

text \<open>
  C30. A capture request wakes a waiting poller: if the poll's baseline read sees the
  workflow before a capture request and every later read sees it after, and the workflow
  class appends one image per shot without touching the image list on preparation, the
  poll's first iteration reports the captured workflow (the spec's scenario of a client
  waiting on a workflow with no images while one page is shot).
\<close>

theorem capture_wakes_poller:
  assumes "cfg_mode cfg \<in> set capture_modes"
    and "\<forall>w. wf_images (op_prepare_capture ops w) = wf_images w"
    and "\<forall>w. length (wf_images (op_capture ops False w)) = Suc (length (wf_images w))"
    and "can_continue (cfg_debug pcfg) clk 0"
  shows "poll_for_updates pcfg clk (\<lambda>k. if k = 0 then w else snd (trigger_capture cfg ops image_url False w))
    = Some (PollChanged (snd (trigger_capture cfg ops image_url False w)))"
proof -
  let ?w' = "snd (trigger_capture cfg ops image_url False w)"
  let ?obs = "\<lambda>k. if k = 0 then w else ?w'"
  have "length (wf_images ?w') = Suc (length (wf_images w))"
    using assms(2,3) trigger_capture_in_mode [OF assms(1), of ops image_url False w] by simp
  then have "changed_at ?obs 0" by (simp add: changed_at_def take_snapshot_def)
  then have "stops_at (cfg_debug pcfg) clk ?obs 0" by (simp add: stops_at_def)
  then have "poll_for_updates pcfg clk ?obs = Some (answer_at (cfg_debug pcfg) clk ?obs 0)"
    using poll_for_updates_first_stop [of pcfg clk ?obs 0] by simp
  with assms(4) show ?thesis by (simp add: answer_at_def)
qed

theorem capture_wakes_poller_witness:
  "poll_for_updates (demo_cfg False) (\<lambda>i. 0)
     (\<lambda>k. if k = 0 then capture_wf else snd (trigger_capture (capture_cfg ''scanner'') demo_ops (\<lambda>w p. PStr (path_name p)) False capture_wf))
   = Some (PollChanged (snd (trigger_capture (capture_cfg ''scanner'') demo_ops (\<lambda>w p. PStr (path_name p)) False capture_wf)))"
  using capture_wakes_poller [of "capture_cfg ''scanner''" demo_ops "demo_cfg False" "\<lambda>i. 0" capture_wf
      "\<lambda>w p. PStr (path_name p)"]
  by (simp add: capture_modes_def demo_ops_def can_continue_def)

end
